theory Spec2Isabelle
  imports Main "HOL-Library.Sublist" "HOL-Library.Log_Nat"
begin

section \<open>Decoded JSON values and the exceptions of the script\<close>

text \<open>
  The script \<^verbatim>\<open>copy_footage_script_threading.py\<close> works on the values that
  \<^verbatim>\<open>response.json()\<close> returns: \<^verbatim>\<open>None\<close>, booleans, integers, strings, lists and
  dictionaries with string keys. A dictionary is kept as an association list in insertion
  order, read with \<open>map_of\<close>. JSON numbers with a fractional part (Python floats) are
  not part of the model: every number the script computes with is a millisecond or second
  count.
\<close>

datatype jval =
    JNull
  | JBool bool
  | JInt int
  | JStr string
  | JList "jval list"
  | JObj "(string \<times> jval) list"

datatype exn =
    TypeError
  | AttributeError
  | KeyError
  | IndexError
  | ValueError
  | OverflowError
  | FileNotFoundError
  | RequestException
  | MissingSchema
  | FfmpegError

text \<open>Python truthiness, as used by \<^verbatim>\<open>or\<close>, \<^verbatim>\<open>not\<close> and \<^verbatim>\<open>if\<close>.\<close>

fun truthy :: "jval \<Rightarrow> bool" where
  "truthy JNull = False"
| "truthy (JBool b) = b"
| "truthy (JInt n) = (n \<noteq> 0)"
| "truthy (JStr s) = (s \<noteq> [])"
| "truthy (JList xs) = (xs \<noteq> [])"
| "truthy (JObj kvs) = (kvs \<noteq> [])"

text \<open>
  \<^verbatim>\<open>d.get(key, default)\<close>: only a dictionary has the method; on every other value the
  attribute lookup raises.
\<close>

fun dict_get :: "jval \<Rightarrow> string \<Rightarrow> jval \<Rightarrow> exn + jval" where
  "dict_get (JObj kvs) k dflt = Inr (case map_of kvs k of None \<Rightarrow> dflt | Some v \<Rightarrow> v)"
| "dict_get _ k dflt = Inl AttributeError"

text \<open>
  The operand of an integer operator (\<^verbatim>\<open>//\<close>, \<^verbatim>\<open>-\<close> with an \<^verbatim>\<open>int\<close> on the other
  side): an \<^verbatim>\<open>int\<close>, or a \<^verbatim>\<open>bool\<close>, which Python counts as 0 or 1; anything else
  raises \<^verbatim>\<open>TypeError\<close>.
\<close>

fun as_int :: "jval \<Rightarrow> exn + int" where
  "as_int (JInt n) = Inr n"
| "as_int (JBool b) = Inr (if b then 1 else 0)"
| "as_int _ = Inl TypeError"

text \<open>
  Sequencing of statements that may raise: the first exception ends the sequence, as it
  ends the enclosing block in Python.
\<close>

fun and_then :: "exn + 'a \<Rightarrow> ('a \<Rightarrow> exn + 'b) \<Rightarrow> exn + 'b" where
  "and_then (Inl e) f = Inl e"
| "and_then (Inr x) f = f x"

section \<open>Alerts to download tasks\<close>

record download_task =
  device_uuid :: jval
  device_name :: jval
  start_time :: int
  duration :: int
  alert_id :: jval
  alert_type :: jval
  timestamp_ms :: jval

text \<open>
  \<^verbatim>\<open>a.get(k1) or a.get(k2)\<close> is written out below as: the first value when it
  is truthy, the second otherwise. The log calls of this function change no result and
  are left out.
\<close>

text \<open>
  The body of the \<^verbatim>\<open>try\<close> block of \<^verbatim>\<open>process_alerts_for_download\<close> for one alert.
  \<open>Inl e\<close>: the body raised \<open>e\<close>; \<open>Inr None\<close>: it reached a \<^verbatim>\<open>continue\<close>
  (the alert is skipped with a warning); \<open>Inr (Some t)\<close>: it appended the task \<open>t\<close>.
  The statements are in the source's order, so the arithmetic on the timestamps comes
  before the test of the device id.
\<close>

definition alert_body :: "int \<Rightarrow> jval \<Rightarrow> exn + download_task option" where
  "alert_body alert_buffer_seconds alert =
    and_then (dict_get alert ''timestampMs'' JNull) (\<lambda>ts1.
    and_then (if truthy ts1 then Inr ts1 else dict_get alert ''eventStartMs'' JNull)
      (\<lambda>alert_timestamp_ms.
    and_then (dict_get alert ''eventEndMs'' JNull) (\<lambda>event_end_ms.
    if \<not> truthy alert_timestamp_ms then Inr None
    else
    and_then (as_int alert_timestamp_ms) (\<lambda>ts.
    and_then (if truthy event_end_ms
              then and_then (as_int event_end_ms)
                     (\<lambda>en. Inr ((en - ts) div 1000 + 2 * alert_buffer_seconds))
              else Inr (120 + 2 * alert_buffer_seconds)) (\<lambda>dur.
    and_then (dict_get alert ''deviceUuid'' JNull) (\<lambda>du1.
    and_then (if truthy du1 then Inr du1 else dict_get alert ''cameraUuid'' JNull)
      (\<lambda>dev_uuid.
    and_then (dict_get alert ''deviceName'' JNull) (\<lambda>dn1.
    and_then (if truthy dn1 then Inr dn1
              else dict_get alert ''cameraName'' (JStr ''Unknown'')) (\<lambda>dev_name.
    and_then (dict_get alert ''alertId'' (JStr ''unknown'')) (\<lambda>a_id.
    and_then (dict_get alert ''alertType'' (JStr ''alert'')) (\<lambda>a_type.
    if \<not> truthy dev_uuid then Inr None
    else Inr (Some \<lparr> device_uuid = dev_uuid, device_name = dev_name,
                     start_time = max 0 (ts div 1000 - alert_buffer_seconds),
                     duration = dur, alert_id = a_id, alert_type = a_type,
                     timestamp_ms = alert_timestamp_ms \<rparr>))))))))))))"

text \<open>
  The \<^verbatim>\<open>for\<close> loop with its \<^verbatim>\<open>try\<close>/\<^verbatim>\<open>except Exception\<close>: an exception of the body
  is logged and the loop goes on with the next alert. The result is \<open>Inr\<close> of the task
  list when the function returns and \<open>Inl\<close> of the exception when it raises.
\<close>

fun alerts_loop :: "int \<Rightarrow> jval list \<Rightarrow> download_task list \<Rightarrow> exn + download_task list" where
  "alerts_loop b [] download_tasks = Inr download_tasks"
| "alerts_loop b (alert # rest) download_tasks =
    (case alert_body b alert of
       Inl e \<Rightarrow> alerts_loop b rest download_tasks
     | Inr None \<Rightarrow> alerts_loop b rest download_tasks
     | Inr (Some t) \<Rightarrow> alerts_loop b rest (download_tasks @ [t]))"

definition process_alerts_for_download :: "jval list \<Rightarrow> int \<Rightarrow> exn + download_task list" where
  "process_alerts_for_download alerts alert_buffer_seconds =
     alerts_loop alert_buffer_seconds alerts []"

section \<open>Strings and segment URIs\<close>

text \<open>\<^verbatim>\<open>sub in s\<close> on strings: \<open>sub\<close> occurs in \<open>s\<close> as a contiguous run.\<close>

fun str_contains :: "string \<Rightarrow> string \<Rightarrow> bool" where
  "str_contains sub [] = (sub = [])"
| "str_contains sub (c # cs) = (prefix sub (c # cs) \<or> str_contains sub cs)"

text \<open>
  \<^verbatim>\<open>s.replace(old, new)\<close>: every occurrence of \<open>old\<close>, found from the left and not
  overlapping, is replaced. With an empty \<open>old\<close> Python puts \<open>new\<close> before every
  character and at the end.
\<close>

function py_replace :: "string \<Rightarrow> string \<Rightarrow> string \<Rightarrow> string" where
  "py_replace [] old new = (if old = [] then new else [])"
| "py_replace (c # cs) old new =
    (if old = [] then new @ c # py_replace cs old new
     else if prefix old (c # cs)
       then new @ py_replace (drop (length old) (c # cs)) old new
       else c # py_replace cs old new)"
  by pat_completeness auto
termination
  by (relation "measure (\<lambda>(s, old, new). length s)") auto

text \<open>\<^verbatim>\<open>str(n)\<close> of an integer: its decimal digits, with a minus sign below zero.\<close>

function nat_str :: "nat \<Rightarrow> string" where
  "nat_str n = (if n < 10 then [''0123456789'' ! n]
                else nat_str (n div 10) @ [''0123456789'' ! (n mod 10)])"
  by pat_completeness auto
termination
  by (relation "measure (\<lambda>n. n)") auto

definition int_str :: "int \<Rightarrow> string" where
  "int_str i = (if i < 0 then CHR ''-'' # nat_str (nat (- i)) else nat_str (nat i))"

definition URI_FILE_ENDINGS :: "string list" where
  "URI_FILE_ENDINGS = [''clip.mpd'', ''file.mpd'']"

text \<open>
  \<^verbatim>\<open>get_segment_uri\<close>: the loop over the endings returns at the first ending that occurs
  anywhere in the URI; \<open>None\<close> when no ending occurs.
\<close>

fun segment_uri_for :: "string list \<Rightarrow> string \<Rightarrow> string \<Rightarrow> string option" where
  "segment_uri_for [] mpd_uri segment_name = None"
| "segment_uri_for (ending # endings) mpd_uri segment_name =
    (if str_contains ending mpd_uri then Some (py_replace mpd_uri ending segment_name)
     else segment_uri_for endings mpd_uri segment_name)"

definition get_segment_uri :: "string \<Rightarrow> string \<Rightarrow> string option" where
  "get_segment_uri mpd_uri segment_name =
     segment_uri_for URI_FILE_ENDINGS mpd_uri segment_name"

text \<open>
  The attributes the script reads of a \<^verbatim>\<open>RhombusMPDInfo\<close> object. The class is
  imported from \<^verbatim>\<open>rhombus_mpd_info\<close>, which is not part of the repository's sources.
\<close>

record mpd_info =
  init_string :: string
  segment_pattern :: string
  start_index :: int

definition get_segment_uri_index :: "mpd_info \<Rightarrow> string \<Rightarrow> int \<Rightarrow> string option" where
  "get_segment_uri_index rhombus_mpd_info mpd_uri index =
     get_segment_uri mpd_uri
       (py_replace (segment_pattern rhombus_mpd_info) ''$Number$''
          (int_str (index + start_index rhombus_mpd_info)))"

section \<open>The remote service, the file system and the failure log\<close>

text \<open>
  A response of the \<^verbatim>\<open>requests\<close> library: its status, its body, and the body decoded
  as JSON (\<open>None\<close> when the body is not JSON, so that \<^verbatim>\<open>.json()\<close> raises).
\<close>

record response =
  status_code :: int
  content :: string
  json :: "jval option"

text \<open>
  The calls the script makes: a POST to the API with a JSON payload, and a GET on the
  media session, which carries the federated session token as its cookie. A GET is
  recorded with the URL it was given; \<^verbatim>\<open>get_segment_uri\<close> may have returned \<open>None\<close>.
\<close>

datatype request = ApiPost string jval | MediaGet jval "string option"

text \<open>The outcome of one run of the external multiplexer on the two intermediate files: the
  combined file it wrote, or a failure, with the exception it raises (\<^verbatim>\<open>ffmpeg.Error\<close>
  or another one) and the partial output file it may leave behind.\<close>

datatype mux_result = Muxed string | MuxFailed exn "string option"

text \<open>
  Everything outside the script. A remote call may answer differently each time, so each
  oracle is given the number of calls made before it. \<open>rhombus_mpd_info\<close> stands for
  \<^verbatim>\<open>RhombusMPDInfo(str(content, "utf-8"), is_audio)\<close> of the module that is not in the
  repository; \<open>ffmpeg_run\<close> for the \<^verbatim>\<open>ffmpeg\<close> process, given the contents of its two
  input files (\<open>None\<close> for a file that does not exist); \<open>local_time\<close> for what the
  platform makes of \<^verbatim>\<open>datetime.fromtimestamp(t).strftime("%c")\<close>: the text, or the
  exception of a conversion the platform refuses.
\<close>

record world =
  api_post :: "nat \<Rightarrow> string \<Rightarrow> jval \<Rightarrow> exn + response"
  media_get :: "nat \<Rightarrow> jval \<Rightarrow> string \<Rightarrow> exn + response"
  rhombus_mpd_info :: "string \<Rightarrow> bool \<Rightarrow> exn + mpd_info"
  ffmpeg_run :: "string option \<Rightarrow> string option \<Rightarrow> mux_result"
  local_time :: "int \<Rightarrow> exn + string"

text \<open>
  The state the script changes: the calls made so far, the files on disk, and the failure
  reports (warnings, errors, and what the \<^verbatim>\<open>except\<close> clauses of \<^verbatim>\<open>worker_manual\<close>
  print). Debug, info and progress output is not recorded.
\<close>

datatype log_level = WARNING | ERROR | PRINTED

record io_state =
  calls :: "request list"
  files :: "string \<rightharpoonup> string"
  log_lines :: "(log_level \<times> string) list"

type_synonym 'a step = "io_state \<Rightarrow> (exn + 'a) \<times> io_state"

definition ret :: "'a \<Rightarrow> 'a step" where
  "ret x s = (Inr x, s)"

definition lift :: "exn + 'a \<Rightarrow> 'a step" where
  "lift r s = (r, s)"

definition then_do :: "'a step \<Rightarrow> ('a \<Rightarrow> 'b step) \<Rightarrow> 'b step" where
  "then_do m f s = (case m s of (Inl e, s') \<Rightarrow> (Inl e, s') | (Inr x, s') \<Rightarrow> f x s')"

definition try_except :: "'a step \<Rightarrow> (exn \<Rightarrow> 'a step) \<Rightarrow> 'a step" where
  "try_except m handler s =
     (case m s of (Inl e, s') \<Rightarrow> handler e s' | (Inr x, s') \<Rightarrow> (Inr x, s'))"

definition http_post :: "world \<Rightarrow> string \<Rightarrow> jval \<Rightarrow> response step" where
  "http_post w url payload s =
     (api_post w (length (calls s)) url payload,
      s\<lparr>calls := calls s @ [ApiPost url payload]\<rparr>)"

text \<open>\<^verbatim>\<open>media_sess.get(None)\<close> raises before anything is sent.\<close>

definition media_fetch :: "world \<Rightarrow> nat \<Rightarrow> jval \<Rightarrow> string option \<Rightarrow> exn + response" where
  "media_fetch w n token uri =
     (case uri of None \<Rightarrow> Inl MissingSchema | Some u \<Rightarrow> media_get w n token u)"

definition http_get :: "world \<Rightarrow> jval \<Rightarrow> string option \<Rightarrow> response step" where
  "http_get w token uri s =
     (media_fetch w (length (calls s)) token uri,
      s\<lparr>calls := calls s @ [MediaGet token uri]\<rparr>)"

definition logger :: "log_level \<Rightarrow> string \<Rightarrow> unit step" where
  "logger level msg s = (Inr (), s\<lparr>log_lines := log_lines s @ [(level, msg)]\<rparr>)"

text \<open>\<^verbatim>\<open>open(name, "wb")\<close> creates the file or empties it; \<^verbatim>\<open>write\<close> followed by
  \<^verbatim>\<open>flush\<close> appends to it. Failures of the local disk are not modelled.\<close>

definition open_wb :: "string \<Rightarrow> unit step" where
  "open_wb name s = (Inr (), s\<lparr>files := (files s)(name \<mapsto> [])\<rparr>)"

definition write_flush :: "string \<Rightarrow> string \<Rightarrow> unit step" where
  "write_flush name bytes s =
     (Inr (), s\<lparr>files := (files s)(name \<mapsto>
        (case files s name of None \<Rightarrow> bytes | Some old \<Rightarrow> old @ bytes))\<rparr>)"

definition os_remove :: "string \<Rightarrow> unit step" where
  "os_remove name s =
     (if files s name = None then (Inl FileNotFoundError, s)
      else (Inr (), s\<lparr>files := (files s)(name := None)\<rparr>))"

section \<open>Reading decoded JSON\<close>

definition resp_json :: "response \<Rightarrow> exn + jval" where
  "resp_json r = (case json r of None \<Rightarrow> Inl ValueError | Some v \<Rightarrow> Inr v)"

text \<open>\<^verbatim>\<open>v[key]\<close> with a string key, and \<^verbatim>\<open>v[0]\<close>.\<close>

fun subscript_key :: "jval \<Rightarrow> string \<Rightarrow> exn + jval" where
  "subscript_key (JObj kvs) k = (case map_of kvs k of None \<Rightarrow> Inl KeyError | Some v \<Rightarrow> Inr v)"
| "subscript_key _ k = Inl TypeError"

fun subscript_0 :: "jval \<Rightarrow> exn + jval" where
  "subscript_0 (JList []) = Inl IndexError"
| "subscript_0 (JList (x # xs)) = Inr x"
| "subscript_0 (JStr []) = Inl IndexError"
| "subscript_0 (JStr (c # cs)) = Inr (JStr [c])"
| "subscript_0 (JObj kvs) = Inl KeyError"
| "subscript_0 _ = Inl TypeError"

text \<open>\<^verbatim>\<open>for x in v\<close>: the elements of a list, the characters of a string, the keys of a
  dictionary.\<close>

fun py_iter :: "jval \<Rightarrow> exn + jval list" where
  "py_iter (JList xs) = Inr xs"
| "py_iter (JStr s) = Inr (map (\<lambda>c. JStr [c]) s)"
| "py_iter (JObj kvs) = Inr (map (\<lambda>kv. JStr (fst kv)) kvs)"
| "py_iter _ = Inl TypeError"

fun py_len :: "jval \<Rightarrow> exn + nat" where
  "py_len (JList xs) = Inr (length xs)"
| "py_len (JStr s) = Inr (length s)"
| "py_len (JObj kvs) = Inr (length kvs)"
| "py_len _ = Inl TypeError"

text \<open>
  A value used as a dictionary key: lists and dictionaries are unhashable, and
  \<^verbatim>\<open>True\<close> and \<^verbatim>\<open>False\<close> are the same keys as 1 and 0.
\<close>

fun hash_key :: "jval \<Rightarrow> exn + jval" where
  "hash_key (JList xs) = Inl TypeError"
| "hash_key (JObj kvs) = Inl TypeError"
| "hash_key (JBool b) = Inr (JInt (if b then 1 else 0))"
| "hash_key v = Inr v"

section \<open>Fetching the policy alerts\<close>

definition opt_str :: "string option \<Rightarrow> jval" where
  "opt_str v = (case v of None \<Rightarrow> JNull | Some x \<Rightarrow> JStr x)"

definition opt_int :: "int option \<Rightarrow> jval" where
  "opt_int v = (case v of None \<Rightarrow> JNull | Some x \<Rightarrow> JInt x)"

text \<open>
  \<^verbatim>\<open>get_policy_alerts\<close>. The value returned on success is whatever the body holds under
  \<^verbatim>\<open>alerts\<close>; the info log line takes its \<^verbatim>\<open>len\<close> first, which raises on a value that
  has none. The API key travels in the headers and is part of how \<open>api_post\<close> answers.
\<close>

definition policy_alerts_url :: string where
  "policy_alerts_url = ''https://api2.rhombussystems.com/api/event/getPolicyAlerts''"

definition policy_alerts_payload ::
  "int \<Rightarrow> string option \<Rightarrow> string option \<Rightarrow> int option \<Rightarrow> int option \<Rightarrow> jval"
where
  "policy_alerts_payload max_results location_uuid camera_uuid before_timestamp_ms
      after_timestamp_ms =
    JObj [(''maxResults'', JInt max_results),
          (''locationFilter'', opt_str location_uuid),
          (''deviceFilter'', opt_str camera_uuid),
          (''beforeTimestampMs'', opt_int before_timestamp_ms),
          (''afterTimestampMs'', opt_int after_timestamp_ms)]"

definition get_policy_alerts ::
  "world \<Rightarrow> int \<Rightarrow> string option \<Rightarrow> string option \<Rightarrow> int option \<Rightarrow> int option \<Rightarrow> jval step"
where
  "get_policy_alerts w max_results location_uuid camera_uuid before_timestamp_ms
      after_timestamp_ms =
    try_except
      (then_do (http_post w policy_alerts_url
                 (policy_alerts_payload max_results location_uuid camera_uuid
                    before_timestamp_ms after_timestamp_ms)) (\<lambda>response.
       if status_code response \<noteq> 200
       then then_do (logger ERROR ''Failed to retrieve policy alerts: %s'') (\<lambda>_. ret (JList []))
       else
       then_do (lift (resp_json response)) (\<lambda>alerts_data.
       then_do (lift (dict_get alerts_data ''alerts'' (JList []))) (\<lambda>alerts.
       then_do (lift (py_len alerts)) (\<lambda>_.
       ret alerts)))))
      (\<lambda>e. then_do (logger ERROR ''Error retrieving policy alerts: %s'') (\<lambda>_. ret (JList [])))"

section \<open>The camera directory\<close>

text \<open>
  \<^verbatim>\<open>camUuidDict\<close>: from the camera's uuid to a dictionary that holds \<^verbatim>\<open>name\<close> and,
  once a gateway lists the camera, \<^verbatim>\<open>audioGatewayUuid\<close>.
\<close>

type_synonym cam_dict = "jval \<rightharpoonup> (string \<rightharpoonup> jval)"

text \<open>The innermost loop, over the cameras one gateway lists.\<close>

definition associate_body :: "jval \<Rightarrow> jval \<Rightarrow> cam_dict \<Rightarrow> exn + cam_dict" where
  "associate_body audioGateway cameraUuid camUuidDict =
    and_then (hash_key cameraUuid) (\<lambda>k.
    case camUuidDict k of
      None \<Rightarrow> Inr camUuidDict
    | Some entry \<Rightarrow>
        and_then (subscript_key audioGateway ''uuid'') (\<lambda>u.
        Inr (camUuidDict(k \<mapsto> entry(''audioGatewayUuid'' \<mapsto> u)))))"

fun associate_loop :: "jval \<Rightarrow> jval list \<Rightarrow> cam_dict \<Rightarrow> exn + cam_dict" where
  "associate_loop audioGateway [] camUuidDict = Inr camUuidDict"
| "associate_loop audioGateway (cameraUuid # rest) camUuidDict =
    and_then (associate_body audioGateway cameraUuid camUuidDict)
      (associate_loop audioGateway rest)"

definition gateway_body :: "jval \<Rightarrow> cam_dict \<Rightarrow> exn + cam_dict" where
  "gateway_body audioGateway camUuidDict =
    and_then (subscript_key audioGateway ''associatedCameras'') (\<lambda>listed.
    and_then (py_iter listed) (\<lambda>cameraUuids.
    associate_loop audioGateway cameraUuids camUuidDict))"

fun gateways_loop :: "jval list \<Rightarrow> cam_dict \<Rightarrow> exn + cam_dict" where
  "gateways_loop [] camUuidDict = Inr camUuidDict"
| "gateways_loop (audioGateway # rest) camUuidDict =
    and_then (gateway_body audioGateway camUuidDict) (gateways_loop rest)"

text \<open>
  The two filter tests of the loop over the cameras,
  \<^verbatim>\<open>location_uuid is not None and cam["locationUuid"] != location_uuid\<close> and
  \<^verbatim>\<open>camera_uuid is not None and cam["uuid"] != camera_uuid\<close>: the camera is read only
  when the filter is given.
\<close>

definition other_location :: "string option \<Rightarrow> jval \<Rightarrow> exn + bool" where
  "other_location location_uuid cam =
    (case location_uuid of
       None \<Rightarrow> Inr False
     | Some loc \<Rightarrow> and_then (subscript_key cam ''locationUuid'') (\<lambda>v. Inr (v \<noteq> JStr loc)))"

definition other_camera :: "string option \<Rightarrow> jval \<Rightarrow> exn + bool" where
  "other_camera camera_uuid cam =
    (case camera_uuid of
       None \<Rightarrow> Inr False
     | Some c \<Rightarrow> and_then (subscript_key cam ''uuid'') (\<lambda>v. Inr (v \<noteq> JStr c)))"

text \<open>
  The end of the loop body: the camera is stored under its uuid, then the loop over the
  gateways runs, inside the loop over the cameras.
\<close>

definition store_camera :: "jval \<Rightarrow> jval \<Rightarrow> jval \<Rightarrow> cam_dict \<Rightarrow> exn + cam_dict" where
  "store_camera audResDict cam cam_name camUuidDict =
    and_then (subscript_key cam ''uuid'') (\<lambda>u.
    and_then (hash_key u) (\<lambda>k.
    and_then (subscript_key audResDict ''audioGatewayStates'') (\<lambda>states.
    and_then (py_iter states) (\<lambda>audioGateways.
    gateways_loop audioGateways (camUuidDict(k \<mapsto> [''name'' \<mapsto> cam_name]))))))"

text \<open>
  The body of the loop over the cameras. A \<^verbatim>\<open>continue\<close> leaves the dictionary as it is.
\<close>

definition camera_body ::
  "string option \<Rightarrow> string option \<Rightarrow> jval \<Rightarrow> jval \<Rightarrow> cam_dict \<Rightarrow> exn + cam_dict"
where
  "camera_body location_uuid camera_uuid audResDict cam camUuidDict =
    and_then (subscript_key cam ''connectionStatus'') (\<lambda>status.
    if status = JStr ''RED'' then Inr camUuidDict
    else
    and_then (subscript_key cam ''name'') (\<lambda>cam_name.
    and_then (other_location location_uuid cam) (\<lambda>skip.
    if skip then Inr camUuidDict
    else
    and_then (other_camera camera_uuid cam) (\<lambda>skip.
    if skip then Inr camUuidDict
    else store_camera audResDict cam cam_name camUuidDict))))"

fun cameras_loop ::
  "string option \<Rightarrow> string option \<Rightarrow> jval \<Rightarrow> jval list \<Rightarrow> cam_dict \<Rightarrow> exn + cam_dict"
where
  "cameras_loop location_uuid camera_uuid audResDict [] camUuidDict = Inr camUuidDict"
| "cameras_loop location_uuid camera_uuid audResDict (cam # rest) camUuidDict =
    and_then (camera_body location_uuid camera_uuid audResDict cam camUuidDict)
      (cameras_loop location_uuid camera_uuid audResDict rest)"

definition url_cam :: string where
  "url_cam = ''https://api2.rhombussystems.com/api/camera/getMinimalCameraStateList''"

definition url_aud :: string where
  "url_aud =
     ''https://api2.rhombussystems.com/api/audiogateway/getMinimalAudioGatewayStateList''"

definition get_camera_to_gateway_map ::
  "world \<Rightarrow> string option \<Rightarrow> string option \<Rightarrow> cam_dict step"
where
  "get_camera_to_gateway_map w location_uuid camera_uuid =
    then_do (http_post w url_cam (JObj [])) (\<lambda>response.
    then_do (lift (resp_json response)) (\<lambda>camResDict.
    then_do (http_post w url_aud (JObj [])) (\<lambda>response.
    then_do (lift (resp_json response)) (\<lambda>audResDict.
    then_do (lift (subscript_key camResDict ''cameraStates'')) (\<lambda>states.
    then_do (lift (py_iter states)) (\<lambda>cams.
    lift (cameras_loop location_uuid camera_uuid audResDict cams Map.empty)))))))"

section \<open>The download engine\<close>

text \<open>
  The fields of \<^verbatim>\<open>args\<close> that decide what is downloaded (\<^verbatim>\<open>usewan\<close>,
  \<^verbatim>\<open>start_time\<close>, \<^verbatim>\<open>duration\<close>), and the fields of a \<^verbatim>\<open>CopyFootageToLocalStorage\<close>
  object. The credentials and the two sessions are part of how the \<open>world\<close> answers.
  \<open>self_start_time\<close> and \<open>self_duration\<close> are \<^verbatim>\<open>self.start_time\<close> and
  \<^verbatim>\<open>self.duration\<close>.
\<close>

record args =
  args_usewan :: bool
  args_start_time :: int
  args_duration :: int

record engine =
  device_id :: jval
  video :: string
  audio :: "string option"
  use_wan :: bool
  self_start_time :: int
  self_duration :: int

definition CopyFootageToLocalStorage ::
  "args \<Rightarrow> jval \<Rightarrow> string \<Rightarrow> string option \<Rightarrow> engine"
where
  "CopyFootageToLocalStorage a cam video_file_name audio_file_name =
     \<lparr> device_id = cam, video = video_file_name, audio = audio_file_name,
       use_wan = args_usewan a, self_start_time = args_start_time a,
       self_duration = args_duration a \<rparr>"

definition api_url :: string where
  "api_url = ''https://api2.rhombussystems.com''"

text \<open>
  \<^verbatim>\<open>int(self.duration / 2)\<close>. The division is Python's true division: its result is the
  double nearest to the quotient, ties going to the even significand, and
  \<^verbatim>\<open>OverflowError\<close> when the quotient is too large for a double; \<^verbatim>\<open>int\<close> then drops
  the fraction. \<open>round53 a\<close> is \<open>a\<close> rounded to 53 significant bits.
\<close>

definition round53 :: "nat \<Rightarrow> nat" where
  "round53 a =
    (let s = nat (bitlen (int a) - 53) in
     if s = 0 then a
     else let m = a div 2 ^ s; r = a mod 2 ^ s; h = 2 ^ (s - 1)
          in (if h < r \<or> (r = h \<and> odd m) then m + 1 else m) * 2 ^ s)"

definition segment_count :: "int \<Rightarrow> exn + int" where
  "segment_count d =
    (let r = round53 (nat \<bar>d\<bar>) in
     if 2 ^ 1025 \<le> r then Inl OverflowError else Inr (sgn d * int (r div 2)))"

text \<open>\<^verbatim>\<open>range(n)\<close>\<close>

definition py_range :: "int \<Rightarrow> int list" where
  "py_range n = map int [0..<nat n]"

text \<open>
  The choice of the URI template, and the two \<^verbatim>\<open>replace\<close> calls that fill it in;
  \<^verbatim>\<open>replace\<close> is a method of strings only.
\<close>

definition vod_template :: "bool \<Rightarrow> response \<Rightarrow> exn + jval" where
  "vod_template wan media_uri_resp =
    (if wan
     then and_then (resp_json media_uri_resp) (\<lambda>j. subscript_key j ''wanVodMpdUriTemplate'')
     else and_then (resp_json media_uri_resp) (\<lambda>j.
          and_then (subscript_key j ''lanVodMpdUrisTemplates'') subscript_0))"

fun fill_template :: "jval \<Rightarrow> int \<Rightarrow> int \<Rightarrow> exn + string" where
  "fill_template (JStr mpd_uri_template) st dur =
     Inr (py_replace (py_replace mpd_uri_template ''{START_TIME}'' (int_str st))
            ''{DURATION}'' (int_str dur))"
| "fill_template _ st dur = Inl AttributeError"

text \<open>
  \<^verbatim>\<open>datetime.fromtimestamp(t).strftime("%c")\<close>, an argument of the log calls; Python
  evaluates it whatever the log level is. A \<^verbatim>\<open>datetime\<close> holds the years 1 to 9999 of
  local time, and local time is less than a day away from UTC, so outside the seconds
  \<open>time_min\<close> to \<open>time_max\<close> the conversion always raises; inside, the platform decides.
\<close>

definition time_min :: int where
  "time_min = - 62135596800 - 86400"

definition time_max :: int where
  "time_max = 253402300799 + 86400"

definition fromtimestamp :: "world \<Rightarrow> int \<Rightarrow> exn + string" where
  "fromtimestamp w t =
    (if t < time_min \<or> time_max < t
     then (case local_time w t of Inl e \<Rightarrow> Inl e | Inr text \<Rightarrow> Inl ValueError)
     else local_time w t)"

text \<open>
  The progress log inside the loop, every 300 segments: its two times are converted in
  this order, and a conversion that raises leaves the loop.
\<close>

definition progress_log :: "world \<Rightarrow> int \<Rightarrow> int \<Rightarrow> exn + unit" where
  "progress_log w st cur_seg =
    (if cur_seg > 0 \<and> cur_seg mod 300 = 0
     then and_then (fromtimestamp w (st + (cur_seg - 300) * 2)) (\<lambda>_.
          and_then (fromtimestamp w (st + cur_seg * 2)) (\<lambda>_. Inr ()))
     else Inr ())"

text \<open>
  The log after the loop: the times of the start and of the end of the clip.
\<close>

definition closing_log :: "world \<Rightarrow> int \<Rightarrow> int \<Rightarrow> exn + unit" where
  "closing_log w st dur =
    and_then (fromtimestamp w st) (\<lambda>_.
    and_then (fromtimestamp w (st + dur)) (\<lambda>_. Inr ()))"

text \<open>
  The loop over the segments, the same statements in \<^verbatim>\<open>execute_video\<close> and
  \<^verbatim>\<open>execute_audio\<close>: compute the URI, fetch, append the body to the output file, log
  the progress. The status of the response is not looked at. An exception of the fetch or
  of the log leaves the loop. \<open>st\<close> is \<^verbatim>\<open>self.start_time\<close>.
\<close>

fun segment_loop ::
  "world \<Rightarrow> jval \<Rightarrow> mpd_info \<Rightarrow> string \<Rightarrow> string \<Rightarrow> int \<Rightarrow> int list \<Rightarrow> unit step"
where
  "segment_loop w token info mpd_uri out st [] = ret ()"
| "segment_loop w token info mpd_uri out st (cur_seg # rest) =
    then_do (http_get w token (get_segment_uri_index info mpd_uri cur_seg)) (\<lambda>seg_resp.
    then_do (write_flush out (content seg_resp)) (\<lambda>_.
    then_do (lift (progress_log w st cur_seg)) (\<lambda>_.
    segment_loop w token info mpd_uri out st rest)))"

text \<open>The \<^verbatim>\<open>with open(...)\<close> block of both methods.\<close>

definition write_stream ::
  "world \<Rightarrow> jval \<Rightarrow> mpd_info \<Rightarrow> string \<Rightarrow> string \<Rightarrow> int \<Rightarrow> int \<Rightarrow> unit step"
where
  "write_stream w token info mpd_uri out st dur =
    then_do (open_wb out) (\<lambda>_.
    then_do (http_get w token (get_segment_uri mpd_uri (init_string info))) (\<lambda>init_seg_resp.
    then_do (write_flush out (content init_seg_resp)) (\<lambda>_.
    then_do (lift (segment_count dur)) (\<lambda>n.
    segment_loop w token info mpd_uri out st (py_range n)))))"

text \<open>
  Both methods return \<^verbatim>\<open>None\<close>; the model keeps which \<^verbatim>\<open>return\<close> was taken: one of
  the two after a warning, or the end of the method.
\<close>

datatype returned = Returned_Early | Returned_End

text \<open>
  \<^verbatim>\<open>execute_video\<close>. The test after the media-URI request reads
  \<^verbatim>\<open>session_req_resp.status_code\<close>, as the source does. The method ends with the log of
  the clip's start and end times.
\<close>

definition execute_video :: "world \<Rightarrow> engine \<Rightarrow> returned step" where
  "execute_video w self =
    then_do (http_post w (api_url @ ''/api/org/generateFederatedSessionToken'')
               (JObj [(''durationSec'', JInt (60 * 60))])) (\<lambda>session_req_resp.
    if status_code session_req_resp \<noteq> 200
    then then_do (logger WARNING
                    ''Failed to retrieve federated session token, cannot continue: %s'')
           (\<lambda>_. ret Returned_Early)
    else
    then_do (lift (and_then (resp_json session_req_resp)
                     (\<lambda>j. subscript_key j ''federatedSessionToken'')))
      (\<lambda>federated_session_token.
    then_do (http_post w (api_url @ ''/api/camera/getMediaUris'')
               (JObj [(''cameraUuid'', device_id self)])) (\<lambda>media_uri_resp.
    if status_code session_req_resp \<noteq> 200
    then then_do (logger WARNING
                    ''Failed to retrieve camera media uris, cannot continue: %s'')
           (\<lambda>_. ret Returned_Early)
    else
    then_do (lift (vod_template (use_wan self) media_uri_resp)) (\<lambda>mpd_uri_template.
    then_do (lift (fill_template mpd_uri_template (self_start_time self)
                     (self_duration self))) (\<lambda>mpd_uri.
    then_do (http_get w federated_session_token (Some mpd_uri)) (\<lambda>mpd_doc_resp.
    then_do (lift (rhombus_mpd_info w (content mpd_doc_resp) False)) (\<lambda>mpd_info.
    then_do (write_stream w federated_session_token mpd_info mpd_uri (video self)
               (self_start_time self) (self_duration self)) (\<lambda>_.
    then_do (lift (closing_log w (self_start_time self) (self_duration self))) (\<lambda>_.
    ret Returned_End)))))))))"

text \<open>
  \<^verbatim>\<open>execute_audio\<close>. \<^verbatim>\<open>open(None, "wb")\<close> raises \<^verbatim>\<open>TypeError\<close>.
\<close>

definition execute_audio :: "world \<Rightarrow> engine \<Rightarrow> jval \<Rightarrow> returned step" where
  "execute_audio w self audioGatewayUuid =
    then_do (http_post w (api_url @ ''/api/org/generateFederatedSessionToken'')
               (JObj [(''durationSec'', JInt (60 * 60))])) (\<lambda>session_req_resp.
    if status_code session_req_resp \<noteq> 200
    then then_do (logger WARNING
                    ''Failed to retrieve federated session token, cannot continue: %s'')
           (\<lambda>_. ret Returned_Early)
    else
    then_do (lift (and_then (resp_json session_req_resp)
                     (\<lambda>j. subscript_key j ''federatedSessionToken'')))
      (\<lambda>federated_session_token.
    then_do (http_post w (api_url @ ''/api/audiogateway/getMediaUris'')
               (JObj [(''gatewayUuid'', audioGatewayUuid)])) (\<lambda>media_uri_resp.
    if status_code session_req_resp \<noteq> 200
    then then_do (logger WARNING
                    ''Failed to retrieve audio media uris, cannot continue: %s'')
           (\<lambda>_. ret Returned_Early)
    else
    then_do (lift (vod_template (use_wan self) media_uri_resp)) (\<lambda>mpd_uri_template.
    then_do (lift (fill_template mpd_uri_template (self_start_time self)
                     (self_duration self))) (\<lambda>mpd_uri.
    then_do (http_get w federated_session_token (Some mpd_uri)) (\<lambda>mpd_doc_resp.
    then_do (lift (rhombus_mpd_info w (content mpd_doc_resp) True)) (\<lambda>mpd_info.
    then_do (case audio self of
               None \<Rightarrow> lift (Inl TypeError)
             | Some audio_file \<Rightarrow>
                 write_stream w federated_session_token mpd_info mpd_uri audio_file
                   (self_start_time self) (self_duration self)) (\<lambda>_.
    then_do (lift (closing_log w (self_start_time self) (self_duration self))) (\<lambda>_.
    ret Returned_End)))))))))"

section \<open>The workers and the multiplexer\<close>

text \<open>
  \<^verbatim>\<open>ffmpeg.concat(...).output(output_file).run(overwrite_output=True)\<close>: the process
  reads the two inputs and writes the output file; a failed run raises
  \<^verbatim>\<open>ffmpeg.Error\<close>, and a run that cannot be started raises something else.
\<close>

definition ffmpeg_concat :: "world \<Rightarrow> string \<Rightarrow> string \<Rightarrow> string \<Rightarrow> unit step" where
  "ffmpeg_concat w video_file audio_file output_file s =
    (case ffmpeg_run w (files s video_file) (files s audio_file) of
       Muxed combined \<Rightarrow> (Inr (), s\<lparr>files := (files s)(output_file \<mapsto> combined)\<rparr>)
     | MuxFailed e None \<Rightarrow> (Inl e, s)
     | MuxFailed e (Some partial) \<Rightarrow>
         (Inl e, s\<lparr>files := (files s)(output_file \<mapsto> partial)\<rparr>))"

text \<open>
  The \<^verbatim>\<open>try\<close> block of both workers: multiplex, remove the audio file, remove the video
  file; \<^verbatim>\<open>except ffmpeg.Error\<close> and \<^verbatim>\<open>except Exception\<close> each report and go on.
\<close>

definition mux_and_remove ::
  "world \<Rightarrow> string \<Rightarrow> string \<Rightarrow> string \<Rightarrow> log_level \<Rightarrow> string \<Rightarrow> string \<Rightarrow> unit step"
where
  "mux_and_remove w video_file audio_file output_file level ffmpeg_msg other_msg =
    try_except
      (then_do (ffmpeg_concat w video_file audio_file output_file) (\<lambda>_.
       then_do (os_remove audio_file) (\<lambda>_.
       os_remove video_file)))
      (\<lambda>e. if e = FfmpegError then logger level ffmpeg_msg else logger level other_msg)"

text \<open>
  \<^verbatim>\<open>worker_alert\<close>. \<open>stem\<close> is the outcome of the statements that compute the part
  the three file names share,
  \<^verbatim>\<open>{safe_cam_name}_{cam_uuid}_{timestamp_str}_alert_{safe_alert_type}_{safe_alert_id}\<close>:
  its text, or the exception they raise (\<^verbatim>\<open>join\<close> over a value that is not a string,
  \<^verbatim>\<open>fromtimestamp\<close> of a time out of range). They run before anything else, and the
  three names repeat the same values. The \<^verbatim>\<open>sleep\<close> is left out.
  \<^verbatim>\<open>audioGatewayUuid is not None\<close> is \<open>audioGatewayUuid \<noteq> JNull\<close>.
\<close>

definition worker_alert ::
  "world \<Rightarrow> exn + string \<Rightarrow> download_task \<Rightarrow> jval \<Rightarrow> args \<Rightarrow> unit step"
where
  "worker_alert w stem download_task audioGatewayUuid args_main =
    then_do (lift stem) (\<lambda>stem.
    let cam_uuid = device_uuid download_task;
        file_type = (if audioGatewayUuid \<noteq> JNull then ''.webm'' else ''.mp4'');
        video_file = stem @ ''_video'' @ file_type;
        alert_args = args_main\<lparr>args_start_time := start_time download_task,
                               args_duration := duration download_task\<rparr>
    in
    if audioGatewayUuid \<noteq> JNull then
      (let audio_file = stem @ ''_audio'' @ file_type;
           engine = CopyFootageToLocalStorage alert_args cam_uuid video_file (Some audio_file)
       in
       then_do (execute_video w engine) (\<lambda>_.
       then_do (execute_audio w engine audioGatewayUuid) (\<lambda>_.
       mux_and_remove w video_file audio_file (stem @ ''_combined.mp4'') ERROR
         ''Error in ffmpeg processing for alert %s: %s''
         ''Error processing alert %s: %s'')))
    else
      (let engine = CopyFootageToLocalStorage alert_args cam_uuid video_file None
       in then_do (execute_video w engine) (\<lambda>_. ret ())))"

text \<open>
  \<^verbatim>\<open>worker_manual\<close>. \<open>stem\<close> is the outcome of
  \<^verbatim>\<open>"".join(x for x in camVal["name"] if x.isalnum()) + "_" + cam_uuid + "_" + str(args_main.start_time)\<close>:
  its text, or the exception it raises.
\<close>

definition worker_manual ::
  "world \<Rightarrow> exn + string \<Rightarrow> jval \<Rightarrow> jval \<Rightarrow> args \<Rightarrow> unit step"
where
  "worker_manual w stem camKey audioGatewayUuid args_main =
    then_do (lift stem) (\<lambda>stem.
    let cam_uuid = camKey;
        file_type = (if audioGatewayUuid \<noteq> JNull then ''.webm'' else ''.mp4'');
        video_file = stem @ ''_video'' @ file_type
    in
    if audioGatewayUuid \<noteq> JNull then
      (let audio_file = stem @ ''_audio'' @ file_type;
           engine = CopyFootageToLocalStorage args_main cam_uuid video_file (Some audio_file)
       in
       then_do (execute_video w engine) (\<lambda>_.
       then_do (execute_audio w engine audioGatewayUuid) (\<lambda>_.
       mux_and_remove w video_file audio_file (stem @ ''_videoWithAudio.mp4'') PRINTED
         ''Error in ffmpeg processing: ''
         ''Error: '')))
    else
      (let engine = CopyFootageToLocalStorage args_main cam_uuid video_file None
       in then_do (execute_video w engine) (\<lambda>_. ret ())))"

section \<open>Vocabulary for the statements about alerts\<close>

text \<open>What the loop appends for one alert: the task of the body, nothing when the body
  skips the alert or raises.\<close>

definition produced :: "int \<Rightarrow> jval \<Rightarrow> download_task option" where
  "produced b alert = (case alert_body b alert of Inr (Some t) \<Rightarrow> Some t | _ \<Rightarrow> None)"



fun field :: "jval \<Rightarrow> string \<Rightarrow> jval" where
  "field (JObj kvs) k = (case map_of kvs k of None \<Rightarrow> JNull | Some v \<Rightarrow> v)"
| "field _ k = JNull"

definition first_truthy :: "jval \<Rightarrow> string \<Rightarrow> string \<Rightarrow> jval" where
  "first_truthy a k1 k2 = (if truthy (field a k1) then field a k1 else field a k2)"





section \<open>Vocabulary for the statements about output files\<close>

text \<open>
  A step changes no file outside \<open>F\<close> when it returns; a method leaves the file \<open>f\<close> on
  disk when it runs to its end.
\<close>

definition touches_only :: "string set \<Rightarrow> 'a step \<Rightarrow> bool" where
  "touches_only F m =
     (\<forall>s x s'. m s = (Inr x, s') \<longrightarrow> (\<forall>f. f \<notin> F \<longrightarrow> files s' f = files s f))"

definition leaves_file :: "string \<Rightarrow> returned step \<Rightarrow> bool" where
  "leaves_file f m = (\<forall>s s'. m s = (Inr Returned_End, s') \<longrightarrow> files s' f \<noteq> None)"

text \<open>
  The fetch the loop makes at position \<open>i\<close> of its index list when \<open>n\<close> calls were made
  before the loop, and the body it appends for it.
\<close>

definition segment_fetch ::
  "world \<Rightarrow> nat \<Rightarrow> jval \<Rightarrow> mpd_info \<Rightarrow> string \<Rightarrow> int list \<Rightarrow> nat \<Rightarrow> exn + response"
where
  "segment_fetch w n token info mpd_uri idxs i =
     media_fetch w (n + i) token (get_segment_uri_index info mpd_uri (idxs ! i))"

definition segment_body ::
  "world \<Rightarrow> nat \<Rightarrow> jval \<Rightarrow> mpd_info \<Rightarrow> string \<Rightarrow> int list \<Rightarrow> nat \<Rightarrow> string"
where
  "segment_body w n token info mpd_uri idxs i =
     (case segment_fetch w n token info mpd_uri idxs i of
        Inl e \<Rightarrow> []
      | Inr seg_resp \<Rightarrow> content seg_resp)"

text \<open>
  What claim C8 says of the state \<open>s'\<close> a worker ends in, \<open>s\<close> being the state after both
  streams. When the multiplexer succeeds, the video file and the audio file are gone, the
  output file holds what the multiplexer made, and nothing is reported. When it fails,
  both files hold what they held and are still there, and one line is reported: the
  worker's message for \<^verbatim>\<open>ffmpeg.Error\<close>, or its message for any other exception.
\<close>

definition after_mux ::
  "world \<Rightarrow> string \<Rightarrow> string \<Rightarrow> string \<Rightarrow> log_level \<Rightarrow> string \<Rightarrow> string \<Rightarrow>
   io_state \<Rightarrow> io_state \<Rightarrow> bool"
where
  "after_mux w video_file audio_file output_file level ffmpeg_msg other_msg s s' =
    (case ffmpeg_run w (files s video_file) (files s audio_file) of
       Muxed combined \<Rightarrow>
         files s' video_file = None \<and> files s' audio_file = None
         \<and> files s' output_file = Some combined
         \<and> log_lines s' = log_lines s
     | MuxFailed e partial \<Rightarrow>
         files s' video_file = files s video_file \<and> files s' video_file \<noteq> None
         \<and> files s' audio_file = files s audio_file \<and> files s' audio_file \<noteq> None
         \<and> log_lines s' =
             log_lines s @ [(level, if e = FfmpegError then ffmpeg_msg else other_msg)])"

section \<open>Vocabulary for the statements about the directory\<close>

text \<open>
  The cameras the directory call lists, when it is made in state \<open>s\<close>; the key a camera
  is stored under; a camera whose connectivity state is not the unhealthy one
  (\<^verbatim>\<open>RED\<close>); a camera at the location of the filter; the camera of the device filter.
\<close>

definition listed_cameras :: "world \<Rightarrow> io_state \<Rightarrow> jval list" where
  "listed_cameras w s =
    (case and_then (api_post w (length (calls s)) url_cam (JObj [])) (\<lambda>r.
          and_then (resp_json r) (\<lambda>camResDict.
          and_then (subscript_key camResDict ''cameraStates'') py_iter)) of
       Inl e \<Rightarrow> []
     | Inr cams \<Rightarrow> cams)"

definition cam_key :: "jval \<Rightarrow> exn + jval" where
  "cam_key cam = and_then (subscript_key cam ''uuid'') hash_key"

definition healthy :: "jval \<Rightarrow> bool" where
  "healthy cam =
    (case subscript_key cam ''connectionStatus'' of
       Inl e \<Rightarrow> False
     | Inr status \<Rightarrow> status \<noteq> JStr ''RED'')"

definition in_location :: "string option \<Rightarrow> jval \<Rightarrow> bool" where
  "in_location location_uuid cam =
    (case location_uuid of
       None \<Rightarrow> True
     | Some loc \<Rightarrow> subscript_key cam ''locationUuid'' = Inr (JStr loc))"

definition is_device :: "string option \<Rightarrow> jval \<Rightarrow> bool" where
  "is_device camera_uuid cam =
    (case camera_uuid of
       None \<Rightarrow> True
     | Some c \<Rightarrow> subscript_key cam ''uuid'' = Inr (JStr c))"

section \<open>Concrete services for the examples\<close>

text \<open>A service whose first call fails in transport and whose later calls answer 200 with
  one alert.\<close>

definition flaky_api :: world where
  "flaky_api =
    \<lparr> api_post = (\<lambda>n url payload.
         if n = 0 then Inl RequestException
         else Inr \<lparr> status_code = 200, content = ''{...}'',
                    json = Some (JObj [(''alerts'', JList [JObj [(''timestampMs'', JInt 5000)]])]) \<rparr>),
      media_get = (\<lambda>n token uri. Inl RequestException),
      rhombus_mpd_info = (\<lambda>doc is_audio. Inl ValueError),
      ffmpeg_run = (\<lambda>v a. MuxFailed FfmpegError None),
      local_time = (\<lambda>t. Inr ''Thu Jan  1 00:16:40 1970'') \<rparr>"

text \<open>A directory of three cameras and one audio gateway.\<close>

definition directory_service :: world where
  "directory_service =
    \<lparr> api_post = (\<lambda>n url payload.
         if url = url_cam
         then Inr \<lparr> status_code = 200, content = ''{...}'',
                    json = Some (JObj [(''cameraStates'', JList
                      [JObj [(''uuid'', JStr ''cam-1''), (''name'', JStr ''Door''),
                             (''connectionStatus'', JStr ''GREEN''),
                             (''locationUuid'', JStr ''loc-A'')],
                       JObj [(''uuid'', JStr ''cam-2''), (''name'', JStr ''Yard''),
                             (''connectionStatus'', JStr ''RED''),
                             (''locationUuid'', JStr ''loc-A'')],
                       JObj [(''uuid'', JStr ''cam-3''), (''name'', JStr ''Dock''),
                             (''connectionStatus'', JStr ''GREEN''),
                             (''locationUuid'', JStr ''loc-B'')]])]) \<rparr>
         else Inr \<lparr> status_code = 200, content = ''{...}'',
                    json = Some (JObj [(''audioGatewayStates'', JList
                      [JObj [(''uuid'', JStr ''gw-1''),
                             (''associatedCameras'', JList [JStr ''cam-1''])]])]) \<rparr>),
      media_get = (\<lambda>n token uri. Inl RequestException),
      rhombus_mpd_info = (\<lambda>doc is_audio. Inl ValueError),
      ffmpeg_run = (\<lambda>v a. MuxFailed FfmpegError None),
      local_time = (\<lambda>t. Inr ''Thu Jan  1 00:16:40 1970'') \<rparr>"

text \<open>
  A camera that serves a clip of 4 seconds from time 1000. The media-URI request is
  answered with the given status; the URI \<open>refused\<close> is answered with status 404; a
  fetch of the URI \<open>down\<close> fails in transport.
\<close>

definition clip_info :: mpd_info where
  "clip_info = \<lparr> init_string = ''seg_init.mp4'', segment_pattern = ''seg_$Number$.m4v'',
                  start_index = 1 \<rparr>"

definition camera_service :: "int \<Rightarrow> string \<Rightarrow> string \<Rightarrow> world" where
  "camera_service uri_status refused down =
    \<lparr> api_post = (\<lambda>n url payload.
         if url = api_url @ ''/api/org/generateFederatedSessionToken''
         then Inr \<lparr> status_code = 200, content = ''{...}'',
                    json = Some (JObj [(''federatedSessionToken'', JStr ''tok'')]) \<rparr>
         else Inr \<lparr> status_code = uri_status, content = ''{...}'',
                    json = Some (JObj [(''lanVodMpdUrisTemplates'',
                      JList [JStr ''https://cam/{START_TIME}_{DURATION}/file.mpd''])]) \<rparr>),
      media_get = (\<lambda>n token uri.
         if uri = down then Inl RequestException
         else if uri = refused
         then Inr \<lparr> status_code = 404, content = ''Not Found'', json = None \<rparr>
         else if uri = ''https://cam/1000_4/file.mpd''
         then Inr \<lparr> status_code = 200, content = ''<MPD/>'', json = None \<rparr>
         else if uri = ''https://cam/1000_4/seg_init.mp4''
         then Inr \<lparr> status_code = 200, content = ''INIT'', json = None \<rparr>
         else Inr \<lparr> status_code = 200, content = ''SEG'', json = None \<rparr>),
      rhombus_mpd_info = (\<lambda>doc is_audio. Inr clip_info),
      ffmpeg_run = (\<lambda>v a. MuxFailed FfmpegError None),
      local_time = (\<lambda>t. Inr ''Thu Jan  1 00:16:40 1970'') \<rparr>"

text \<open>The same camera with a multiplexer that works: given both inputs it writes the
  video bytes followed by the audio bytes.\<close>

definition joining_service :: world where
  "joining_service =
    (camera_service 200 [] [])\<lparr> ffmpeg_run := (\<lambda>v a.
       case v of None \<Rightarrow> MuxFailed FfmpegError None
       | Some video_bytes \<Rightarrow>
           (case a of None \<Rightarrow> MuxFailed FfmpegError None
            | Some audio_bytes \<Rightarrow> Muxed (video_bytes @ audio_bytes))) \<rparr>"

text \<open>The arguments of a manual download of 4 seconds from time 1000, and an alert task
  for the same window.\<close>

definition manual_args :: args where
  "manual_args = \<lparr> args_usewan = False, args_start_time = 1000, args_duration = 4 \<rparr>"

definition door_task :: download_task where
  "door_task = \<lparr> device_uuid = JStr ''cam-1'', device_name = JStr ''Door'',
                  start_time = 1000, duration = 4, alert_id = JStr ''a-1'',
                  alert_type = JStr ''motion'', timestamp_ms = JInt 1030000 \<rparr>"

definition fresh :: io_state where
  "fresh = \<lparr>calls = [], files = Map.empty, log_lines = []\<rparr>"

definition after_init :: io_state where
  "after_init = \<lparr>calls = [MediaGet (JStr ''tok'') (Some ''https://cam/1000_4/seg_init.mp4'')],
                  files = [''out.mp4'' \<mapsto> ''INIT''], log_lines = []\<rparr>"

definition video_engine :: engine where
  "video_engine = \<lparr> device_id = JStr ''cam-1'', video = ''out.mp4'', audio = None,
                     use_wan = False, self_start_time = 1000, self_duration = 4 \<rparr>"


section \<open>Alerts: what the loop produces\<close>

lemma alerts_loop_eq:
  "alerts_loop b alerts acc = Inr (acc @ List.map_filter (produced b) alerts)"
  by (induction alerts arbitrary: acc)
     (auto simp: produced_def List.map_filter_simps split: sum.splits option.splits)




lemma dict_get_field: "dict_get (JObj kvs) k JNull = Inr (field (JObj kvs) k)"
  by simp

lemma alert_body_vals:
  assumes "dict_get a ''timestampMs'' JNull = Inr p"
    and "dict_get a ''eventStartMs'' JNull = Inr f"
    and "dict_get a ''eventEndMs'' JNull = Inr e"
    and "dict_get a ''deviceUuid'' JNull = Inr d1"
    and "dict_get a ''cameraUuid'' JNull = Inr d2"
    and "dict_get a ''deviceName'' JNull = Inr n1"
    and "dict_get a ''cameraName'' (JStr ''Unknown'') = Inr n2"
    and "dict_get a ''alertId'' (JStr ''unknown'') = Inr ai"
    and "dict_get a ''alertType'' (JStr ''alert'') = Inr ty"
  shows "alert_body b a =
    (if \<not> truthy (if truthy p then p else f) then Inr None
     else and_then (as_int (if truthy p then p else f)) (\<lambda>ts.
          and_then (if truthy e
                    then and_then (as_int e) (\<lambda>en. Inr ((en - ts) div 1000 + 2 * b))
                    else Inr (120 + 2 * b)) (\<lambda>dur.
          if \<not> truthy (if truthy d1 then d1 else d2) then Inr None
          else Inr (Some \<lparr> device_uuid = (if truthy d1 then d1 else d2),
                       device_name = (if truthy n1 then n1 else n2),
                       start_time = max 0 (ts div 1000 - b), duration = dur,
                       alert_id = ai, alert_type = ty,
                       timestamp_ms = (if truthy p then p else f) \<rparr>))))"
  by (cases "truthy p"; cases "truthy d1"; cases "truthy n1")
     (simp_all add: alert_body_def assms split del: if_split cong: if_cong)

lemma dict_get_obj: "\<exists>v. dict_get (JObj kvs) k d = Inr v"
  by simp


text \<open>The body on a dictionary, in terms of the values \<^verbatim>\<open>get\<close> returns.\<close>

lemma alert_body_obj:
  "\<exists>dn ai ty. alert_body b (JObj kvs) =
    (if \<not> truthy (first_truthy (JObj kvs) ''timestampMs'' ''eventStartMs'') then Inr None
     else and_then (as_int (first_truthy (JObj kvs) ''timestampMs'' ''eventStartMs'')) (\<lambda>ts.
          and_then (if truthy (field (JObj kvs) ''eventEndMs'')
                    then and_then (as_int (field (JObj kvs) ''eventEndMs''))
                           (\<lambda>en. Inr ((en - ts) div 1000 + 2 * b))
                    else Inr (120 + 2 * b)) (\<lambda>dur.
          if \<not> truthy (first_truthy (JObj kvs) ''deviceUuid'' ''cameraUuid'') then Inr None
          else Inr (Some \<lparr> device_uuid = first_truthy (JObj kvs) ''deviceUuid'' ''cameraUuid'',
                       device_name = dn,
                       start_time = max 0 (ts div 1000 - b), duration = dur,
                       alert_id = ai, alert_type = ty,
                       timestamp_ms = first_truthy (JObj kvs) ''timestampMs'' ''eventStartMs'' \<rparr>))))"
proof -
  obtain n1 n2 ai ty where g:
    "dict_get (JObj kvs) ''deviceName'' JNull = Inr n1"
    "dict_get (JObj kvs) ''cameraName'' (JStr ''Unknown'') = Inr n2"
    "dict_get (JObj kvs) ''alertId'' (JStr ''unknown'') = Inr ai"
    "dict_get (JObj kvs) ''alertType'' (JStr ''alert'') = Inr ty"
    by simp
  show ?thesis
    unfolding first_truthy_def
    by (subst alert_body_vals [OF dict_get_field dict_get_field dict_get_field
          dict_get_field dict_get_field g]) blast
qed


lemma and_then_Inr_iff:
  "and_then m f = Inr y \<longleftrightarrow> (\<exists>x. m = Inr x \<and> f x = Inr y)"
  by (cases m) auto




lemma process_eq:
  "process_alerts_for_download alerts b = Inr (List.map_filter (produced b) alerts)"
  by (simp add: process_alerts_for_download_def alerts_loop_eq)

















text \<open>
  Claim C10. An alert whose \<^verbatim>\<open>timestampMs\<close> is 0 and whose \<^verbatim>\<open>eventStartMs\<close> is absent
  or 0 gives no task: alone it yields the empty list, inside a list it changes nothing
  for the others, and the loop body ends as it does on the same alert with both
  timestamp fields taken out.
\<close>

theorem epoch_zero_skipped:
  assumes "alert = JObj kvs"
    and "map_of kvs ''timestampMs'' = Some (JInt 0)"
    and "map_of kvs ''eventStartMs'' = None \<or> map_of kvs ''eventStartMs'' = Some (JInt 0)"
  shows "process_alerts_for_download [alert] b = Inr []
     \<and> process_alerts_for_download (earlier @ alert # later) b =
         process_alerts_for_download (earlier @ later) b
     \<and> alert_body b alert =
         alert_body b (JObj (filter (\<lambda>kv. fst kv \<noteq> ''timestampMs'' \<and> fst kv \<noteq> ''eventStartMs'') kvs))"
proof -
  have mf: "map_of (filter (\<lambda>kv. P (fst kv)) xs) k = (if P k then map_of xs k else None)"
    for P and xs :: "(string \<times> jval) list" and k
    by (induction xs) auto
  have f1: "\<not> truthy (first_truthy alert ''timestampMs'' ''eventStartMs'')"
    using assms by (auto simp: first_truthy_def)
  have body: "alert_body b alert = Inr None"
    using alert_body_obj [of b kvs] f1 unfolding assms(1) by auto
  let ?kvs' = "filter (\<lambda>kv. fst kv \<noteq> ''timestampMs'' \<and> fst kv \<noteq> ''eventStartMs'') kvs"
  have "\<not> truthy (first_truthy (JObj ?kvs') ''timestampMs'' ''eventStartMs'')"
    using mf [of "\<lambda>k. k \<noteq> ''timestampMs'' \<and> k \<noteq> ''eventStartMs''" kvs]
    by (simp add: first_truthy_def)
  then have body': "alert_body b (JObj ?kvs') = Inr None"
    using alert_body_obj [of b ?kvs'] by auto
  have p: "produced b alert = None"
    by (simp add: produced_def body)
  show ?thesis
    by (simp add: process_eq List.map_filter_simps List.map_filter_def p body body')
qed

text \<open>The theorem of C10 at an alert at epoch time 0, alone and after a valid alert.\<close>

theorem epoch_zero_skipped_witness:
  "process_alerts_for_download
     [JObj [(''timestampMs'', JInt 0), (''deviceUuid'', JStr ''cam-1'')]] 30 = Inr []
   \<and> process_alerts_for_download
       ([JObj [(''timestampMs'', JInt 1000000), (''deviceUuid'', JStr ''cam-1'')]]
        @ JObj [(''timestampMs'', JInt 0), (''deviceUuid'', JStr ''cam-1'')] # []) 30 =
     process_alerts_for_download
       ([JObj [(''timestampMs'', JInt 1000000), (''deviceUuid'', JStr ''cam-1'')]] @ []) 30"
  using epoch_zero_skipped [of "JObj [(''timestampMs'', JInt 0), (''deviceUuid'', JStr ''cam-1'')]"
      "[(''timestampMs'', JInt 0), (''deviceUuid'', JStr ''cam-1'')]" 30
      "[JObj [(''timestampMs'', JInt 1000000), (''deviceUuid'', JStr ''cam-1'')]]" "[]"]
  by simp

section \<open>Segment URIs\<close>

lemma str_contains_sublist: "str_contains sub s \<longleftrightarrow> sublist sub s"
  by (induction s) (auto simp: sublist_Cons_right)

lemma sublist_butlast_or_suffix:
  assumes "sublist e s" and "\<not> suffix e s"
  shows "sublist e (butlast s)"
proof -
  from assms(1) obtain ps ss where s: "s = ps @ e @ ss"
    by (auto simp: sublist_def)
  with assms(2) have "ss \<noteq> []"
    by (auto simp: suffix_def)
  with s have "butlast s = ps @ e @ butlast ss"
    by (simp add: butlast_append)
  then show ?thesis by auto
qed

text \<open>Replacing the one occurrence of a non-empty \<open>old\<close>, at the end of the string.\<close>

lemma py_replace_last:
  assumes "old \<noteq> []" and "\<not> sublist old (butlast (p @ old))"
  shows "py_replace (p @ old) old new = p @ new"
  using assms
proof (induction p)
  case Nil
  then show ?case by (cases old) simp_all
next
  case (Cons c p)
  have bl: "butlast ((c # p) @ old) = c # butlast (p @ old)"
    using Cons.prems(1) by simp
  have np: "\<not> prefix old (c # p @ old)"
  proof
    assume pre: "prefix old (c # p @ old)"
    have "length old \<le> length (c # butlast (p @ old))"
      using Cons.prems(1) by simp
    moreover have "prefix (c # butlast (p @ old)) (c # p @ old)"
      using prefixeq_butlast [of "c # p @ old"] Cons.prems(1) by simp
    ultimately have "prefix old (c # butlast (p @ old))"
      using pre by (meson prefix_length_prefix)
    then have "sublist old (c # butlast (p @ old))"
      by (simp add: sublist_Cons_right)
    with Cons.prems(2) bl show False by simp
  qed
  have "\<not> sublist old (butlast (p @ old))"
    using Cons.prems(2) bl by (simp add: sublist_Cons_right)
  with Cons.IH Cons.prems(1) have "py_replace (p @ old) old new = p @ new" by simp
  with np Cons.prems(1) show ?case by simp
qed

lemma py_replace_same:
  "new = old \<Longrightarrow> old \<noteq> [] \<Longrightarrow> py_replace s old new = s"
proof (induction s old new rule: py_replace.induct)
  case (1 old new)
  then show ?case by simp
next
  case (2 c cs old new)
  show ?case
  proof (cases "prefix old (c # cs)")
    case True
    then have "old @ drop (length old) (c # cs) = c # cs"
      by (metis append_eq_conv_conj prefix_def)
    with 2 True show ?thesis by simp
  next
    case False
    with 2 show ?thesis by simp
  qed
qed

text \<open>
  Claim C3, as amended. When the manifest URI ends in one of the known endings
  (\<^verbatim>\<open>clip.mpd\<close>, \<^verbatim>\<open>file.mpd\<close>), \<^verbatim>\<open>get_segment_uri\<close> returns the URI with that ending
  replaced by the segment name and the rest unchanged, provided that the ending occurs
  nowhere before that last position (or the segment name is the ending itself) and, for a
  URI that ends in \<^verbatim>\<open>file.mpd\<close>, that \<^verbatim>\<open>clip.mpd\<close> does not occur in it.
\<close>

theorem segment_uri_replaces_ending:
  assumes "ending \<in> set URI_FILE_ENDINGS"
    and "mpd_uri = base @ ending"
    and "\<not> str_contains ending (butlast mpd_uri) \<or> segment_name = ending"
    and "ending = ''file.mpd'' \<longrightarrow> \<not> str_contains ''clip.mpd'' mpd_uri"
  shows "get_segment_uri mpd_uri segment_name = Some (base @ segment_name)"
proof -
  have here: "str_contains ending mpd_uri"
    using assms(2) by (simp add: str_contains_sublist)
  have ne: "ending \<noteq> []"
    using assms(1) by (auto simp: URI_FILE_ENDINGS_def)
  have rep: "py_replace mpd_uri ending segment_name = base @ segment_name"
  proof (cases "segment_name = ending")
    case True
    then show ?thesis
      using py_replace_same [of segment_name ending mpd_uri] ne assms(2) by simp
  next
    case False
    with assms(2,3) have "\<not> sublist ending (butlast (base @ ending))"
      by (simp add: str_contains_sublist)
    then show ?thesis
      using py_replace_last [OF ne] assms(2) by simp
  qed
  show ?thesis
  proof (cases "ending = ''clip.mpd''")
    case True
    with here rep show ?thesis
      by (simp add: get_segment_uri_def URI_FILE_ENDINGS_def)
  next
    case False
    with assms(1) have e: "ending = ''file.mpd''"
      by (simp add: URI_FILE_ENDINGS_def)
    with assms(4) have "\<not> str_contains ''clip.mpd'' mpd_uri"
      by simp
    with here rep e show ?thesis
      by (simp add: get_segment_uri_def URI_FILE_ENDINGS_def)
  qed
qed

text \<open>The theorem of C3 at a URI that ends in \<^verbatim>\<open>file.mpd\<close>, and at one that ends in
  \<^verbatim>\<open>clip.mpd\<close> and holds \<^verbatim>\<open>file.mpd\<close> earlier.\<close>

theorem segment_uri_replaces_ending_witness:
  "get_segment_uri ''https://cam/dash/file.mpd'' ''seg_init.mp4'' =
     Some (''https://cam/dash/'' @ ''seg_init.mp4'')
   \<and> get_segment_uri ''https://cam/file.mpd-x/clip.mpd'' ''seg_init.mp4'' =
     Some (''https://cam/file.mpd-x/'' @ ''seg_init.mp4'')"
proof
  show "get_segment_uri ''https://cam/dash/file.mpd'' ''seg_init.mp4'' =
     Some (''https://cam/dash/'' @ ''seg_init.mp4'')"
    by (rule segment_uri_replaces_ending [where ending = "''file.mpd''"])
       (simp_all add: URI_FILE_ENDINGS_def)
  show "get_segment_uri ''https://cam/file.mpd-x/clip.mpd'' ''seg_init.mp4'' =
     Some (''https://cam/file.mpd-x/'' @ ''seg_init.mp4'')"
    by (rule segment_uri_replaces_ending [where ending = "''clip.mpd''"])
       (simp_all add: URI_FILE_ENDINGS_def)
qed

text \<open>
  Claim C3 as stated fails in two ways: \<^verbatim>\<open>get_segment_uri\<close> tests
  \<^verbatim>\<open>ending in mpd_uri\<close> and calls \<^verbatim>\<open>replace\<close>, which rewrites every occurrence. The
  first URI ends in \<^verbatim>\<open>file.mpd\<close>, and what is replaced is the \<^verbatim>\<open>clip.mpd\<close> in the
  middle, while the ending stays. The second URI holds its ending \<^verbatim>\<open>file.mpd\<close> twice,
  and both are replaced.
\<close>

theorem segment_uri_counterexample:
  "get_segment_uri (''https://cam/clip.mpd-archive/'' @ ''file.mpd'') ''seg_init.mp4'' =
     Some ''https://cam/seg_init.mp4-archive/file.mpd''
   \<and> get_segment_uri (''https://cam/clip.mpd-archive/'' @ ''file.mpd'') ''seg_init.mp4'' \<noteq>
     Some (''https://cam/clip.mpd-archive/'' @ ''seg_init.mp4'')
   \<and> get_segment_uri (''https://cam/file.mpd/'' @ ''file.mpd'') ''seg_init.mp4'' =
     Some ''https://cam/seg_init.mp4/seg_init.mp4''
   \<and> get_segment_uri (''https://cam/file.mpd/'' @ ''file.mpd'') ''seg_init.mp4'' \<noteq>
     Some (''https://cam/file.mpd/'' @ ''seg_init.mp4'')"
  by (simp add: get_segment_uri_def URI_FILE_ENDINGS_def)

section \<open>Fetching the alerts\<close>

lemma policy_alerts_cases:
  "get_policy_alerts w m loc cam bf af s =
    (let s1 = s\<lparr>calls := calls s @ [ApiPost policy_alerts_url (policy_alerts_payload m loc cam bf af)]\<rparr>;
         failed = (\<lambda>msg. (Inr (JList []), s1\<lparr>log_lines := log_lines s1 @ [(ERROR, msg)]\<rparr>))
     in case api_post w (length (calls s)) policy_alerts_url (policy_alerts_payload m loc cam bf af) of
          Inl e \<Rightarrow> failed ''Error retrieving policy alerts: %s''
        | Inr r \<Rightarrow>
            if status_code r \<noteq> 200 then failed ''Failed to retrieve policy alerts: %s''
            else case and_then (resp_json r) (\<lambda>d. and_then (dict_get d ''alerts'' (JList []))
                        (\<lambda>a. and_then (py_len a) (\<lambda>_. Inr a))) of
                   Inl e \<Rightarrow> failed ''Error retrieving policy alerts: %s''
                 | Inr a \<Rightarrow> (Inr a, s1))"
  by (auto simp: get_policy_alerts_def try_except_def then_do_def http_post_def logger_def
        ret_def lift_def Let_def split: sum.splits)


text \<open>
  Claim C7. \<^verbatim>\<open>get_policy_alerts\<close> makes one call and always returns a value (it never
  raises). When the call raises, or the response's status is not 200, it returns the empty
  list and logs an error. When the status is 200 and the body is a JSON object with a list
  under \<^verbatim>\<open>alerts\<close>, it returns that list.
\<close>

theorem policy_alerts_contract:
  "(\<exists>v s'. get_policy_alerts w m loc cam bf af s = (Inr v, s')
      \<and> calls s' = calls s @ [ApiPost policy_alerts_url (policy_alerts_payload m loc cam bf af)])
   \<and> ((\<exists>e. api_post w (length (calls s)) policy_alerts_url
               (policy_alerts_payload m loc cam bf af) = Inl e)
        \<or> (\<exists>r. api_post w (length (calls s)) policy_alerts_url
               (policy_alerts_payload m loc cam bf af) = Inr r \<and> status_code r \<noteq> 200)
       \<longrightarrow> fst (get_policy_alerts w m loc cam bf af s) = Inr (JList [])
         \<and> (\<exists>msg. log_lines (snd (get_policy_alerts w m loc cam bf af s)) =
                    log_lines s @ [(ERROR, msg)]))
   \<and> (\<forall>r kvs alerts.
         api_post w (length (calls s)) policy_alerts_url
           (policy_alerts_payload m loc cam bf af) = Inr r
         \<and> status_code r = 200 \<and> json r = Some (JObj kvs)
         \<and> map_of kvs ''alerts'' = Some (JList alerts)
       \<longrightarrow> get_policy_alerts w m loc cam bf af s =
             (Inr (JList alerts),
              s\<lparr>calls := calls s @ [ApiPost policy_alerts_url
                                      (policy_alerts_payload m loc cam bf af)]\<rparr>))"
proof (intro conjI allI impI)
  show "\<exists>v s'. get_policy_alerts w m loc cam bf af s = (Inr v, s')
      \<and> calls s' = calls s @ [ApiPost policy_alerts_url (policy_alerts_payload m loc cam bf af)]"
    by (auto simp: policy_alerts_cases Let_def split: sum.splits)
next
  assume "(\<exists>e. api_post w (length (calls s)) policy_alerts_url
               (policy_alerts_payload m loc cam bf af) = Inl e)
        \<or> (\<exists>r. api_post w (length (calls s)) policy_alerts_url
               (policy_alerts_payload m loc cam bf af) = Inr r \<and> status_code r \<noteq> 200)"
  then show "fst (get_policy_alerts w m loc cam bf af s) = Inr (JList [])"
    and "\<exists>msg. log_lines (snd (get_policy_alerts w m loc cam bf af s)) =
                    log_lines s @ [(ERROR, msg)]"
    by (auto simp: policy_alerts_cases Let_def)
next
  fix r kvs alerts
  assume "api_post w (length (calls s)) policy_alerts_url
           (policy_alerts_payload m loc cam bf af) = Inr r
         \<and> status_code r = 200 \<and> json r = Some (JObj kvs)
         \<and> map_of kvs ''alerts'' = Some (JList alerts)"
  then show "get_policy_alerts w m loc cam bf af s =
             (Inr (JList alerts),
              s\<lparr>calls := calls s @ [ApiPost policy_alerts_url
                                      (policy_alerts_payload m loc cam bf af)]\<rparr>)"
    by (simp add: policy_alerts_cases Let_def resp_json_def)
qed

text \<open>The theorem of C7 on a service whose first call fails in transport and whose later
  calls answer 200 with one alert.\<close>

theorem policy_alerts_contract_witness:
  "fst (get_policy_alerts flaky_api 100 None None None None
          \<lparr>calls = [], files = Map.empty, log_lines = []\<rparr>) = Inr (JList [])
   \<and> fst (get_policy_alerts flaky_api 100 None None None None
          \<lparr>calls = [ApiPost ''earlier'' JNull], files = Map.empty, log_lines = []\<rparr>) =
       Inr (JList [JObj [(''timestampMs'', JInt 5000)]])"
proof -
  let ?s0 = "\<lparr>calls = [], files = Map.empty, log_lines = []\<rparr>"
  let ?s1 = "\<lparr>calls = [ApiPost ''earlier'' JNull], files = Map.empty, log_lines = []\<rparr>"
  have "\<exists>e. api_post flaky_api (length (calls ?s0)) policy_alerts_url
               (policy_alerts_payload 100 None None None None) = Inl e"
    by (simp add: flaky_api_def)
  with policy_alerts_contract [of flaky_api 100 None None None None ?s0]
  have a: "fst (get_policy_alerts flaky_api 100 None None None None ?s0) = Inr (JList [])"
    by blast
  have "api_post flaky_api (length (calls ?s1)) policy_alerts_url
           (policy_alerts_payload 100 None None None None) =
          Inr \<lparr> status_code = 200, content = ''{...}'',
                json = Some (JObj [(''alerts'', JList [JObj [(''timestampMs'', JInt 5000)]])]) \<rparr>
        \<and> status_code \<lparr> status_code = 200, content = ''{...}'',
                json = Some (JObj [(''alerts'', JList [JObj [(''timestampMs'', JInt 5000)]])]) \<rparr> = 200
        \<and> json \<lparr> status_code = 200, content = ''{...}'',
                json = Some (JObj [(''alerts'', JList [JObj [(''timestampMs'', JInt 5000)]])]) \<rparr>
            = Some (JObj [(''alerts'', JList [JObj [(''timestampMs'', JInt 5000)]])])
        \<and> map_of [(''alerts'', JList [JObj [(''timestampMs'', JInt 5000)]])] ''alerts'' =
            Some (JList [JObj [(''timestampMs'', JInt 5000)]])"
    by (simp add: flaky_api_def)
  with policy_alerts_contract [of flaky_api 100 None None None None ?s1]
  have "get_policy_alerts flaky_api 100 None None None None ?s1 =
      (Inr (JList [JObj [(''timestampMs'', JInt 5000)]]),
       ?s1\<lparr>calls := calls ?s1 @ [ApiPost policy_alerts_url
                                      (policy_alerts_payload 100 None None None None)]\<rparr>)"
    by blast
  then have "fst (get_policy_alerts flaky_api 100 None None None None ?s1) =
       Inr (JList [JObj [(''timestampMs'', JInt 5000)]])"
    by simp
  with a show ?thesis by blast
qed

section \<open>The camera directory\<close>

lemma and_then_Inr: "and_then m f = Inr y \<Longrightarrow> \<exists>x. m = Inr x \<and> f x = Inr y"
  by (cases m) auto

lemma associate_body_dom:
  assumes "associate_body g c d = Inr d'"
  shows "dom d' = dom d"
proof -
  from assms obtain k where k: "hash_key c = Inr k"
    by (auto simp: associate_body_def and_then_Inr_iff)
  show ?thesis
  proof (cases "d k")
    case None
    with assms k show ?thesis by (simp add: associate_body_def)
  next
    case (Some entry)
    with assms k obtain u where "d' = d(k \<mapsto> entry(''audioGatewayUuid'' \<mapsto> u))"
      by (auto simp: associate_body_def and_then_Inr_iff)
    with Some show ?thesis by (auto simp: dom_def)
  qed
qed

lemma associate_loop_dom:
  "associate_loop g cs d = Inr d' \<Longrightarrow> dom d' = dom d"
proof (induction cs arbitrary: d)
  case Nil
  then show ?case by simp
next
  case (Cons c cs)
  from Cons.prems obtain d1 where "associate_body g c d = Inr d1"
    "associate_loop g cs d1 = Inr d'"
    by (auto simp: and_then_Inr_iff)
  then have "dom d1 = dom d" "dom d' = dom d1"
    using Cons.IH associate_body_dom by blast+
  then show ?case by simp
qed

lemma gateway_body_dom:
  assumes "gateway_body g d = Inr d'"
  shows "dom d' = dom d"
proof -
  from assms obtain cs where "associate_loop g cs d = Inr d'"
    by (auto simp: gateway_body_def and_then_Inr_iff)
  then show ?thesis by (rule associate_loop_dom)
qed

lemma gateways_loop_dom:
  "gateways_loop gs d = Inr d' \<Longrightarrow> dom d' = dom d"
proof (induction gs arbitrary: d)
  case Nil
  then show ?case by simp
next
  case (Cons g gs)
  from Cons.prems obtain d1 where "gateway_body g d = Inr d1"
    "gateways_loop gs d1 = Inr d'"
    by (auto simp: and_then_Inr_iff)
  then have "dom d1 = dom d" "dom d' = dom d1"
    using Cons.IH gateway_body_dom by blast+
  then show ?case by simp
qed

lemma location_test:
  assumes "other_location loc cam = Inr other"
  shows "in_location loc cam = (\<not> other)"
  using assms
  by (cases loc) (auto simp: other_location_def in_location_def and_then_Inr_iff)

lemma device_test:
  assumes "other_camera camf cam = Inr other"
  shows "is_device camf cam = (\<not> other)"
  using assms
  by (cases camf) (auto simp: other_camera_def is_device_def and_then_Inr_iff)

lemma store_camera_dom:
  assumes "store_camera aud cam nm d = Inr d'"
  shows "\<exists>k. cam_key cam = Inr k \<and> dom d' = insert k (dom d)"
proof -
  from assms obtain u k gl where u: "subscript_key cam ''uuid'' = Inr u" "hash_key u = Inr k"
    and g: "gateways_loop gl (d(k \<mapsto> [''name'' \<mapsto> nm])) = Inr d'"
    unfolding store_camera_def by (blast dest: and_then_Inr)
  from gateways_loop_dom [OF g] have "dom d' = insert k (dom d)" by simp
  with u show ?thesis by (auto simp: cam_key_def)
qed

lemma camera_body_dom:
  assumes body: "camera_body loc camf aud cam d = Inr d'" and k: "k \<in> dom d'"
  shows "k \<in> dom d
       \<or> (cam_key cam = Inr k \<and> healthy cam \<and> in_location loc cam \<and> is_device camf cam)"
proof -
  from body obtain status where st: "subscript_key cam ''connectionStatus'' = Inr status"
    and b1: "(if status = JStr ''RED'' then Inr d
      else and_then (subscript_key cam ''name'') (\<lambda>cam_name.
           and_then (other_location loc cam) (\<lambda>skip.
           if skip then Inr d
           else and_then (other_camera camf cam) (\<lambda>skip.
                if skip then Inr d else store_camera aud cam cam_name d)))) = Inr d'"
    unfolding camera_body_def by (blast dest: and_then_Inr)
  show ?thesis
  proof (cases "status = JStr ''RED''")
    case True
    with b1 k show ?thesis by simp
  next
    case False
    then have h: "healthy cam" using st by (simp add: healthy_def)
    from b1 False have "and_then (subscript_key cam ''name'') (\<lambda>cam_name.
           and_then (other_location loc cam) (\<lambda>skip.
           if skip then Inr d
           else and_then (other_camera camf cam) (\<lambda>skip.
                if skip then Inr d else store_camera aud cam cam_name d))) = Inr d'"
      by simp
    then obtain nm skip1 where ol: "other_location loc cam = Inr skip1"
      and b2: "(if skip1 then Inr d
           else and_then (other_camera camf cam) (\<lambda>skip.
                if skip then Inr d else store_camera aud cam nm d)) = Inr d'"
      by (blast dest: and_then_Inr)
    show ?thesis
    proof (cases skip1)
      case True
      with b2 k show ?thesis by simp
    next
      case False
      then have l: "in_location loc cam" using location_test [OF ol] by simp
      from b2 False have "and_then (other_camera camf cam) (\<lambda>skip.
                if skip then Inr d else store_camera aud cam nm d) = Inr d'"
        by simp
      then obtain skip2 where oc: "other_camera camf cam = Inr skip2"
        and b3: "(if skip2 then Inr d else store_camera aud cam nm d) = Inr d'"
        by (blast dest: and_then_Inr)
      show ?thesis
      proof (cases skip2)
        case True
        with b3 k show ?thesis by simp
      next
        case False
        then have c: "is_device camf cam" using device_test [OF oc] by simp
        from b3 False have "store_camera aud cam nm d = Inr d'" by simp
        from store_camera_dom [OF this] obtain k0 where
          k0: "cam_key cam = Inr k0" "dom d' = insert k0 (dom d)" by blast
        with k have "k = k0 \<or> k \<in> dom d" by blast
        with k0 h l c show ?thesis by blast
      qed
    qed
  qed
qed

lemma cameras_loop_dom:
  assumes "cameras_loop loc camf aud cams d = Inr d'" and "k \<in> dom d'"
  shows "k \<in> dom d
       \<or> (\<exists>cam \<in> set cams. cam_key cam = Inr k \<and> healthy cam \<and> in_location loc cam
             \<and> is_device camf cam)"
  using assms
proof (induction cams arbitrary: d)
  case Nil
  then show ?case by simp
next
  case (Cons cam cams)
  from Cons.prems(1) obtain d1 where b: "camera_body loc camf aud cam d = Inr d1"
    and r: "cameras_loop loc camf aud cams d1 = Inr d'"
    by (auto simp: and_then_Inr_iff)
  from Cons.IH [OF r Cons.prems(2)] show ?case
  proof
    assume "k \<in> dom d1"
    from camera_body_dom [OF b this] show ?thesis by auto
  next
    assume "\<exists>cam \<in> set cams. cam_key cam = Inr k \<and> healthy cam \<and> in_location loc cam
             \<and> is_device camf cam"
    then show ?thesis by auto
  qed
qed

lemma then_do_Inr:
  assumes "then_do m f s = (Inr y, s')"
  shows "\<exists>x s1. m s = (Inr x, s1) \<and> f x s1 = (Inr y, s')"
  using assms by (auto simp: then_do_def split: sum.splits prod.splits)

lemma lift_Inr: "lift r s = (Inr y, s') \<Longrightarrow> r = Inr y \<and> s' = s"
  by (simp add: lift_def)

text \<open>
  Claim C9. Every key of the mapping \<^verbatim>\<open>get_camera_to_gateway_map\<close> returns is the
  uuid of a camera of the directory listing whose \<^verbatim>\<open>connectionStatus\<close> is not
  \<^verbatim>\<open>RED\<close>, and that same camera is at the location of the location filter and is the
  camera of the device filter, for each filter that is given. So a camera that the
  listing shows only as \<^verbatim>\<open>RED\<close> is never in the mapping, and with both filters every
  camera in it passes both.
\<close>

theorem directory_respects_filters:
  assumes "get_camera_to_gateway_map w location_uuid camera_uuid s = (Inr camUuidDict, s')"
    and "k \<in> dom camUuidDict"
  shows "\<exists>cam \<in> set (listed_cameras w s).
           cam_key cam = Inr k \<and> healthy cam
         \<and> in_location location_uuid cam \<and> is_device camera_uuid cam"
proof -
  from assms(1) obtain r camResDict states cams aud where
    "api_post w (length (calls s)) url_cam (JObj []) = Inr r"
    "resp_json r = Inr camResDict"
    "subscript_key camResDict ''cameraStates'' = Inr states"
    "py_iter states = Inr cams"
    and loop: "cameras_loop location_uuid camera_uuid aud cams Map.empty = Inr camUuidDict"
    unfolding get_camera_to_gateway_map_def
    by (fastforce simp: http_post_def dest!: then_do_Inr lift_Inr)
  then have "listed_cameras w s = cams"
    by (simp add: listed_cameras_def)
  with cameras_loop_dom [OF loop assms(2)] show ?thesis by simp
qed

text \<open>The theorem of C9 on a directory of three cameras, one of them \<^verbatim>\<open>RED\<close> and one
  at another location, with both filters given.\<close>

theorem directory_respects_filters_witness:
  "get_camera_to_gateway_map directory_service (Some ''loc-A'') (Some ''cam-1'')
     \<lparr>calls = [], files = Map.empty, log_lines = []\<rparr> =
   (Inr [JStr ''cam-1'' \<mapsto> [''name'' \<mapsto> JStr ''Door'', ''audioGatewayUuid'' \<mapsto> JStr ''gw-1'']],
    \<lparr>calls = [ApiPost url_cam (JObj []), ApiPost url_aud (JObj [])],
     files = Map.empty, log_lines = []\<rparr>)
   \<and> (\<exists>cam \<in> set (listed_cameras directory_service
                      \<lparr>calls = [], files = Map.empty, log_lines = []\<rparr>).
         cam_key cam = Inr (JStr ''cam-1'') \<and> healthy cam
       \<and> in_location (Some ''loc-A'') cam \<and> is_device (Some ''cam-1'') cam)"
proof -
  have run: "get_camera_to_gateway_map directory_service (Some ''loc-A'') (Some ''cam-1'')
     \<lparr>calls = [], files = Map.empty, log_lines = []\<rparr> =
   (Inr [JStr ''cam-1'' \<mapsto> [''name'' \<mapsto> JStr ''Door'', ''audioGatewayUuid'' \<mapsto> JStr ''gw-1'']],
    \<lparr>calls = [ApiPost url_cam (JObj []), ApiPost url_aud (JObj [])],
     files = Map.empty, log_lines = []\<rparr>)"
    by (simp add: get_camera_to_gateway_map_def directory_service_def then_do_def http_post_def
        lift_def resp_json_def camera_body_def other_location_def other_camera_def
        store_camera_def gateway_body_def associate_body_def url_cam_def url_aud_def)
  have k: "JStr ''cam-1'' \<in>
     dom [JStr ''cam-1'' \<mapsto> [''name'' \<mapsto> JStr ''Door'', ''audioGatewayUuid'' \<mapsto> JStr ''gw-1'']]"
    by simp
  from directory_respects_filters [OF run k] run show ?thesis by blast
qed

section \<open>The segment loop\<close>

text \<open>One round of the segment loop.\<close>

lemma segment_loop_Cons:
  "segment_loop w token info mpd_uri out st (i # rest) s =
    (case media_fetch w (length (calls s)) token (get_segment_uri_index info mpd_uri i) of
       Inl e \<Rightarrow>
         (Inl e, s\<lparr>calls := calls s @ [MediaGet token (get_segment_uri_index info mpd_uri i)]\<rparr>)
     | Inr seg_resp \<Rightarrow>
         (case progress_log w st i of
            Inl e \<Rightarrow>
              (Inl e,
               s\<lparr>calls := calls s @ [MediaGet token (get_segment_uri_index info mpd_uri i)],
                 files := (files s)(out \<mapsto>
                   (case files s out of None \<Rightarrow> content seg_resp
                    | Some old \<Rightarrow> old @ content seg_resp))\<rparr>)
          | Inr u \<Rightarrow>
              segment_loop w token info mpd_uri out st rest
                (s\<lparr>calls := calls s @ [MediaGet token (get_segment_uri_index info mpd_uri i)],
                   files := (files s)(out \<mapsto>
                     (case files s out of None \<Rightarrow> content seg_resp
                      | Some old \<Rightarrow> old @ content seg_resp))\<rparr>)))"
  by (simp add: then_do_def http_get_def write_flush_def lift_def split: sum.splits)

lemma segment_loop_Nil: "segment_loop w token info mpd_uri out st [] s = (Inr (), s)"
  by (simp add: ret_def)

text \<open>The calls of a run are those of the first positions of the index list, in order.\<close>

lemma segment_loop_calls:
  assumes "segment_loop w token info mpd_uri out st idxs s = (res, s')"
  shows "\<exists>k\<le>length idxs.
           calls s' = calls s @ map (\<lambda>i. MediaGet token (get_segment_uri_index info mpd_uri i))
                                 (take k idxs)
         \<and> (res = Inr () \<longrightarrow> k = length idxs)"
  using assms
proof (induction idxs arbitrary: s)
  case Nil
  then show ?case by (auto simp: ret_def)
next
  case (Cons i rest)
  let ?s1 = "\<lambda>seg_resp. s\<lparr>calls := calls s @ [MediaGet token (get_segment_uri_index info mpd_uri i)],
              files := (files s)(out \<mapsto>
                (case files s out of None \<Rightarrow> content seg_resp
                 | Some old \<Rightarrow> old @ content seg_resp))\<rparr>"
  have one: "\<exists>k\<le>length (i # rest).
           calls s' = calls s @ map (\<lambda>i. MediaGet token (get_segment_uri_index info mpd_uri i))
                                 (take k (i # rest))
         \<and> (res = Inr () \<longrightarrow> k = length (i # rest))"
    if "calls s' = calls s @ [MediaGet token (get_segment_uri_index info mpd_uri i)]"
      and "res \<noteq> Inr ()"
    using that by (intro exI [of _ 1]) simp
  show ?case
  proof (cases "media_fetch w (length (calls s)) token (get_segment_uri_index info mpd_uri i)")
    case (Inl e)
    with Cons.prems show ?thesis
      by (intro one) (auto simp: segment_loop_Cons simp del: segment_loop.simps)
  next
    case (Inr seg_resp)
    note f = this
    show ?thesis
    proof (cases "progress_log w st i")
      case (Inl e)
      with Cons.prems f show ?thesis
        by (intro one) (auto simp: segment_loop_Cons simp del: segment_loop.simps)
    next
      case (Inr u)
      with Cons.prems f have
        "segment_loop w token info mpd_uri out st rest (?s1 seg_resp) = (res, s')"
        by (simp add: segment_loop_Cons del: segment_loop.simps)
      from Cons.IH [OF this] obtain k where k: "k \<le> length rest"
        "calls s' = calls (?s1 seg_resp) @
           map (\<lambda>i. MediaGet token (get_segment_uri_index info mpd_uri i)) (take k rest)"
        "res = Inr () \<longrightarrow> k = length rest"
        by blast
      then have "Suc k \<le> length (i # rest)
         \<and> calls s' = calls s @ map (\<lambda>i. MediaGet token (get_segment_uri_index info mpd_uri i))
                                   (take (Suc k) (i # rest))
         \<and> (res = Inr () \<longrightarrow> Suc k = length (i # rest))" by simp
      then show ?thesis by blast
    qed
  qed
qed

lemma segment_loop_length:
  assumes "segment_loop w token info mpd_uri out st idxs s = (res, s')"
  shows "length (calls s) \<le> length (calls s')"
    and "length (calls s') \<le> length (calls s) + length idxs"
  using segment_loop_calls [OF assms] by auto


lemma segment_loop_frame:
  assumes "segment_loop w token info mpd_uri out st idxs s = (res, s')"
  shows "(\<forall>f. f \<noteq> out \<longrightarrow> files s' f = files s f)
       \<and> (files s out \<noteq> None \<longrightarrow> files s' out \<noteq> None)
       \<and> log_lines s' = log_lines s"
  using assms
proof (induction idxs arbitrary: s)
  case Nil
  then show ?case by (auto simp: ret_def)
next
  case (Cons i rest)
  let ?s1 = "\<lambda>seg_resp. s\<lparr>calls := calls s @ [MediaGet token (get_segment_uri_index info mpd_uri i)],
              files := (files s)(out \<mapsto>
                (case files s out of None \<Rightarrow> content seg_resp
                 | Some old \<Rightarrow> old @ content seg_resp))\<rparr>"
  show ?case
  proof (cases "media_fetch w (length (calls s)) token (get_segment_uri_index info mpd_uri i)")
    case (Inl e)
    with Cons.prems show ?thesis
      by (auto simp: segment_loop_Cons simp del: segment_loop.simps)
  next
    case (Inr seg_resp)
    note f = this
    show ?thesis
    proof (cases "progress_log w st i")
      case (Inl e)
      with Cons.prems f show ?thesis
        by (auto simp: segment_loop_Cons simp del: segment_loop.simps)
    next
      case (Inr u)
      with Cons.prems f have
        "segment_loop w token info mpd_uri out st rest (?s1 seg_resp) = (res, s')"
        by (simp add: segment_loop_Cons del: segment_loop.simps)
      from Cons.IH [OF this] show ?thesis by simp
    qed
  qed
qed


lemma segment_fetch_0:
  "segment_fetch w n token info mpd_uri (i # rest) 0 =
     media_fetch w n token (get_segment_uri_index info mpd_uri i)"
  by (simp add: segment_fetch_def)

lemma segment_fetch_Suc:
  "segment_fetch w n token info mpd_uri (i # rest) (Suc j) =
     segment_fetch w (Suc n) token info mpd_uri rest j"
  by (simp add: segment_fetch_def)

lemma segment_body_Suc:
  "segment_body w n token info mpd_uri (i # rest) (Suc j) =
     segment_body w (Suc n) token info mpd_uri rest j"
  by (simp add: segment_body_def segment_fetch_Suc)

lemma bodies_Cons:
  assumes "media_fetch w n token (get_segment_uri_index info mpd_uri i) = Inr seg_resp"
  shows "concat (map (segment_body w n token info mpd_uri (i # rest)) [0..<Suc j]) =
         content seg_resp @ concat (map (segment_body w (Suc n) token info mpd_uri rest) [0..<j])"
proof -
  have "segment_body w n token info mpd_uri (i # rest) 0 = content seg_resp"
    using assms by (simp add: segment_body_def segment_fetch_0)
  then show ?thesis
    by (simp add: upt_conv_Cons map_Suc_upt [symmetric] comp_def segment_body_Suc
          del: upt_Suc)
qed

lemma failed_fetch_ends:
  assumes "segment_loop w token info mpd_uri out st idxs s = (res, s')"
    and "files s out = Some written"
    and "length (calls s) + j < length (calls s')"
    and "segment_fetch w (length (calls s)) token info mpd_uri idxs j = Inl e"
  shows "res = Inl e
     \<and> calls s' = calls s @ map (\<lambda>i. MediaGet token (get_segment_uri_index info mpd_uri i))
                             (take (Suc j) idxs)
     \<and> files s' = (files s)(out \<mapsto> written @
          concat (map (segment_body w (length (calls s)) token info mpd_uri idxs) [0..<j]))"
  using assms
proof (induction idxs arbitrary: s j written)
  case Nil
  then show ?case by (auto simp: ret_def)
next
  case (Cons i rest)
  let ?c = "MediaGet token (get_segment_uri_index info mpd_uri i)"
  show ?case
  proof (cases j)
    case 0
    with Cons.prems(4) have "media_fetch w (length (calls s)) token
        (get_segment_uri_index info mpd_uri i) = Inl e"
      by (simp add: segment_fetch_0)
    with Cons.prems(1) have r: "res = Inl e" "s' = s\<lparr>calls := calls s @ [?c]\<rparr>"
      by (auto simp: segment_loop_Cons simp del: segment_loop.simps)
    have "(files s)(out \<mapsto> written) = files s"
      using Cons.prems(2) by (rule map_upd_triv)
    with r 0 show ?thesis by simp
  next
    case (Suc j')
    obtain seg_resp where f: "media_fetch w (length (calls s)) token
        (get_segment_uri_index info mpd_uri i) = Inr seg_resp"
    proof (cases "media_fetch w (length (calls s)) token (get_segment_uri_index info mpd_uri i)")
      case (Inl e')
      with Cons.prems(1) have "calls s' = calls s @ [?c]"
        by (auto simp: segment_loop_Cons simp del: segment_loop.simps)
      with Cons.prems(3) Suc show ?thesis by simp
    next
      case (Inr x)
      with that show ?thesis by blast
    qed
    let ?s1 = "s\<lparr>calls := calls s @ [?c],
                 files := (files s)(out \<mapsto> written @ content seg_resp)\<rparr>"
    have run: "segment_loop w token info mpd_uri out st rest ?s1 = (res, s')"
    proof (cases "progress_log w st i")
      case (Inl e')
      with Cons.prems(1,2) f have "calls s' = calls s @ [?c]"
        by (auto simp: segment_loop_Cons simp del: segment_loop.simps)
      with Cons.prems(3) Suc show ?thesis by simp
    next
      case (Inr u)
      with Cons.prems(1,2) f show ?thesis
        by (simp add: segment_loop_Cons del: segment_loop.simps)
    qed
    have a2: "files ?s1 out = Some (written @ content seg_resp)" by simp
    have a3: "length (calls ?s1) + j' < length (calls s')"
      using Cons.prems(3) Suc by simp
    have a4: "segment_fetch w (length (calls ?s1)) token info mpd_uri rest j' = Inl e"
      using Cons.prems(4) Suc by (simp add: segment_fetch_Suc)
    note ih = Cons.IH [OF run a2 a3 a4]
    have ce: "calls ?s1 @ map (\<lambda>i. MediaGet token (get_segment_uri_index info mpd_uri i))
                            (take (Suc j') rest) =
              calls s @ map (\<lambda>i. MediaGet token (get_segment_uri_index info mpd_uri i))
                            (take (Suc j) (i # rest))"
      unfolding Suc by simp
    have fe: "(files ?s1)(out \<mapsto> (written @ content seg_resp) @
                concat (map (segment_body w (length (calls ?s1)) token info mpd_uri rest)
                         [0..<j'])) =
              (files s)(out \<mapsto> written @
                concat (map (segment_body w (length (calls s)) token info mpd_uri (i # rest))
                         [0..<j]))"
      unfolding Suc bodies_Cons [OF f] by simp
    from ih show ?thesis unfolding ce fe by simp
  qed
qed


lemma segment_loop_appends:
  assumes "segment_loop w token info mpd_uri out st idxs s = (res, s')"
    and "files s out = Some written"
  shows "\<exists>more. files s' out = Some (written @ more)"
  using assms
proof (induction idxs arbitrary: s written)
  case Nil
  then show ?case by (auto simp: ret_def)
next
  case (Cons i rest)
  show ?case
  proof (cases "media_fetch w (length (calls s)) token (get_segment_uri_index info mpd_uri i)")
    case (Inl e)
    with Cons.prems show ?thesis
      by (auto simp: segment_loop_Cons simp del: segment_loop.simps)
  next
    case (Inr seg_resp)
    note f = this
    let ?s1 = "s\<lparr>calls := calls s @ [MediaGet token (get_segment_uri_index info mpd_uri i)],
                 files := (files s)(out \<mapsto> written @ content seg_resp)\<rparr>"
    show ?thesis
    proof (cases "progress_log w st i")
      case (Inl e)
      with Cons.prems f show ?thesis
        by (auto simp: segment_loop_Cons simp del: segment_loop.simps)
    next
      case (Inr u)
      with Cons.prems f have run: "segment_loop w token info mpd_uri out st rest ?s1 = (res, s')"
        by (simp add: segment_loop_Cons del: segment_loop.simps)
      have "files ?s1 out = Some (written @ content seg_resp)" by simp
      from Cons.IH [OF run this] show ?thesis by auto
    qed
  qed
qed

lemma segment_loop_first_call:
  assumes "segment_loop w token info mpd_uri out st idxs s = (res, s')"
    and "idxs \<noteq> []"
  shows "length (calls s) < length (calls s')"
proof -
  from assms(2) obtain i rest where idxs: "idxs = i # rest" by (cases idxs) auto
  let ?c = "MediaGet token (get_segment_uri_index info mpd_uri i)"
  show ?thesis
  proof (cases "media_fetch w (length (calls s)) token (get_segment_uri_index info mpd_uri i)")
    case (Inl e)
    with assms(1) idxs show ?thesis
      by (auto simp: segment_loop_Cons simp del: segment_loop.simps)
  next
    case (Inr seg_resp)
    note f = this
    show ?thesis
    proof (cases "progress_log w st i")
      case (Inl e)
      with assms(1) idxs f show ?thesis
        by (auto simp: segment_loop_Cons simp del: segment_loop.simps)
    next
      case (Inr u)
      with assms(1) idxs f obtain s1 where
        "segment_loop w token info mpd_uri out st rest s1 = (res, s')"
        "length (calls s1) = Suc (length (calls s))"
        by (auto simp: segment_loop_Cons simp del: segment_loop.simps)
      with segment_loop_length(1) [of w token info mpd_uri out st rest s1 res s']
      show ?thesis by simp
    qed
  qed
qed

text \<open>A fetch that returns a response, whatever its status, has its body appended, and
  the loop goes on to the next position unless the progress log raises.\<close>

lemma returned_fetch_goes_on:
  assumes "segment_loop w token info mpd_uri out st idxs s = (res, s')"
    and "files s out = Some written"
    and "length (calls s) + j < length (calls s')"
    and "segment_fetch w (length (calls s)) token info mpd_uri idxs j = Inr seg_resp"
  shows "(\<exists>more. files s' out = Some (written @
            concat (map (segment_body w (length (calls s)) token info mpd_uri idxs) [0..<j])
            @ content seg_resp @ more))
       \<and> (progress_log w st (idxs ! j) = Inr () \<and> Suc j < length idxs
            \<longrightarrow> length (calls s) + Suc j < length (calls s'))"
  using assms
proof (induction idxs arbitrary: s j written)
  case Nil
  then show ?case by (auto simp: ret_def)
next
  case (Cons i rest)
  let ?c = "MediaGet token (get_segment_uri_index info mpd_uri i)"
  obtain r0 where f: "media_fetch w (length (calls s)) token
        (get_segment_uri_index info mpd_uri i) = Inr r0"
  proof (cases "media_fetch w (length (calls s)) token (get_segment_uri_index info mpd_uri i)")
    case (Inl e')
    show ?thesis
    proof (cases j)
      case 0
      with Cons.prems(4) Inl show ?thesis by (simp add: segment_fetch_0)
    next
      case (Suc j')
      from Inl Cons.prems(1) have "calls s' = calls s @ [?c]"
        by (auto simp: segment_loop_Cons simp del: segment_loop.simps)
      with Cons.prems(3) Suc show ?thesis by simp
    qed
  next
    case (Inr x)
    with that show ?thesis by blast
  qed
  let ?s1 = "s\<lparr>calls := calls s @ [?c],
               files := (files s)(out \<mapsto> written @ content r0)\<rparr>"
  show ?case
  proof (cases "progress_log w st i")
    case (Inl e')
    with Cons.prems(1,2) f have end1: "s' = ?s1"
      by (auto simp: segment_loop_Cons simp del: segment_loop.simps)
    with Cons.prems(3) have j0: "j = 0" by simp
    with Cons.prems(4) f have "seg_resp = r0" by (simp add: segment_fetch_0)
    with end1 j0 Inl show ?thesis by simp
  next
    case (Inr u)
    with Cons.prems(1,2) f have run: "segment_loop w token info mpd_uri out st rest ?s1 = (res, s')"
      by (simp add: segment_loop_Cons del: segment_loop.simps)
    have a2: "files ?s1 out = Some (written @ content r0)" by simp
    show ?thesis
    proof (cases j)
      case 0
      with Cons.prems(4) f have r: "seg_resp = r0" by (simp add: segment_fetch_0)
      from segment_loop_appends [OF run a2] obtain more where
        "files s' out = Some ((written @ content r0) @ more)" by blast
      moreover have "length (calls s) + Suc 0 < length (calls s')" if "rest \<noteq> []"
        using segment_loop_first_call [OF run that] by simp
      ultimately show ?thesis using 0 r by auto
    next
      case (Suc j')
      have a3: "length (calls ?s1) + j' < length (calls s')"
        using Cons.prems(3) Suc by simp
      have a4: "segment_fetch w (length (calls ?s1)) token info mpd_uri rest j' = Inr seg_resp"
        using Cons.prems(4) Suc by (simp add: segment_fetch_Suc)
      from Cons.IH [OF run a2 a3 a4] have
        ih1: "\<exists>more. files s' out = Some ((written @ content r0) @
            concat (map (segment_body w (length (calls ?s1)) token info mpd_uri rest) [0..<j'])
            @ content seg_resp @ more)"
        and ih2: "progress_log w st (rest ! j') = Inr () \<and> Suc j' < length rest
            \<longrightarrow> length (calls ?s1) + Suc j' < length (calls s')"
        by blast+
      from ih1 have "\<exists>more. files s' out = Some (written @
            concat (map (segment_body w (length (calls s)) token info mpd_uri (i # rest)) [0..<j])
            @ content seg_resp @ more)"
        unfolding Suc bodies_Cons [OF f] by simp
      moreover from ih2 have "progress_log w st ((i # rest) ! j) = Inr ()
            \<and> Suc j < length (i # rest)
            \<longrightarrow> length (calls s) + Suc j < length (calls s')"
        unfolding Suc by simp
      ultimately show ?thesis by blast
    qed
  qed
qed

text \<open>
  Claim C4, as amended. Take a run of the segment loop and a position \<open>j\<close> of its index
  list whose fetch was made. If that fetch raises, the loop ends there with that
  exception: the calls made are those of the positions \<open>0\<close> to \<open>j\<close> and no later one, and
  the output file holds what it held before the loop followed by the bodies of the
  segments before \<open>j\<close>; nothing is removed. If that fetch returns a response, whatever
  its status, its body is appended after the bodies of the segments before it, and the
  fetch of the next position is made, unless \<open>j\<close> is the last position or the progress
  log after segment \<open>j\<close> raises.
\<close>

theorem fetch_failure_aborts:
  assumes "segment_loop w token info mpd_uri out st idxs s = (res, s')"
    and "files s out = Some written"
    and "length (calls s) + j < length (calls s')"
  shows "(\<forall>e. segment_fetch w (length (calls s)) token info mpd_uri idxs j = Inl e \<longrightarrow>
           res = Inl e
         \<and> calls s' = calls s @ map (\<lambda>i. MediaGet token (get_segment_uri_index info mpd_uri i))
                                 (take (Suc j) idxs)
         \<and> files s' = (files s)(out \<mapsto> written @
              concat (map (segment_body w (length (calls s)) token info mpd_uri idxs) [0..<j])))
     \<and> (\<forall>seg_resp. segment_fetch w (length (calls s)) token info mpd_uri idxs j = Inr seg_resp \<longrightarrow>
           (\<exists>more. files s' out = Some (written @
              concat (map (segment_body w (length (calls s)) token info mpd_uri idxs) [0..<j])
              @ content seg_resp @ more))
         \<and> (progress_log w st (idxs ! j) = Inr () \<and> Suc j < length idxs
              \<longrightarrow> length (calls s) + Suc j < length (calls s')))"
  using failed_fetch_ends [OF assms] returned_fetch_goes_on [OF assms] by blast

lemma write_stream_eq:
  "write_stream w token info mpd_uri out st d s =
    (case media_fetch w (length (calls s)) token (get_segment_uri mpd_uri (init_string info)) of
       Inl e \<Rightarrow>
         (Inl e, s\<lparr>calls := calls s @ [MediaGet token (get_segment_uri mpd_uri (init_string info))],
                   files := (files s)(out \<mapsto> [])\<rparr>)
     | Inr init_seg_resp \<Rightarrow>
         (case segment_count d of
            Inl e \<Rightarrow>
              (Inl e, s\<lparr>calls := calls s @
                            [MediaGet token (get_segment_uri mpd_uri (init_string info))],
                        files := (files s)(out \<mapsto> content init_seg_resp)\<rparr>)
          | Inr n \<Rightarrow>
              segment_loop w token info mpd_uri out st (py_range n)
                (s\<lparr>calls := calls s @
                       [MediaGet token (get_segment_uri mpd_uri (init_string info))],
                   files := (files s)(out \<mapsto> content init_seg_resp)\<rparr>)))"
  by (simp add: write_stream_def then_do_def open_wb_def http_get_def write_flush_def lift_def
        split: sum.splits)

lemma write_stream_frame:
  assumes "write_stream w token info mpd_uri out st d s = (res, s')"
  shows "(\<forall>f. f \<noteq> out \<longrightarrow> files s' f = files s f) \<and> files s' out \<noteq> None
       \<and> log_lines s' = log_lines s"
proof (cases "media_fetch w (length (calls s)) token (get_segment_uri mpd_uri (init_string info))")
  case (Inl e)
  with assms show ?thesis by (auto simp: write_stream_eq)
next
  case (Inr init_seg_resp)
  note i = this
  show ?thesis
  proof (cases "segment_count d")
    case (Inl e)
    with assms i show ?thesis by (auto simp: write_stream_eq)
  next
    case (Inr n)
    with assms i have "segment_loop w token info mpd_uri out st (py_range n)
                (s\<lparr>calls := calls s @
                       [MediaGet token (get_segment_uri mpd_uri (init_string info))],
                   files := (files s)(out \<mapsto> content init_seg_resp)\<rparr>) = (res, s')"
      by (simp add: write_stream_eq)
    from segment_loop_frame [OF this] show ?thesis by simp
  qed
qed

text \<open>The count of the segments: \<open>d div 2\<close> below \<open>2 ^ 53\<close>, and at least \<open>2 ^ 52\<close>
  from there on, where the double may round.\<close>

lemma round53_small:
  assumes "a < 2 ^ 53"
  shows "round53 a = a"
proof -
  have "bitlen (int a) \<le> 53"
    using assms by (simp add: bitlen_le_iff_power)
  then show ?thesis by (simp add: round53_def)
qed

lemma segment_count_exact:
  assumes "0 \<le> d" and "d < 2 ^ 53"
  shows "segment_count d = Inr (d div 2)"
proof -
  have a: "nat \<bar>d\<bar> < 2 ^ 53"
    using assms by (simp add: nat_less_iff)
  have "(2::nat) ^ 53 < 2 ^ 1025" by simp
  with a have b: "\<not> 2 ^ 1025 \<le> nat \<bar>d\<bar>" by linarith
  have "sgn d * int (nat \<bar>d\<bar> div 2) = d div 2"
    using assms(1) by (cases "d = 0") (simp_all add: zdiv_int)
  with b show ?thesis
    by (simp add: segment_count_def round53_small [OF a] Let_def)
qed








lemma uri1: "get_segment_uri_index clip_info ''https://cam/1000_4/file.mpd'' 0 =
    Some ''https://cam/1000_4/seg_1.m4v''"
  by (simp add: get_segment_uri_index_def get_segment_uri_def URI_FILE_ENDINGS_def clip_info_def
        int_str_def)

lemma uri2: "get_segment_uri_index clip_info ''https://cam/1000_4/file.mpd'' 1 =
    Some ''https://cam/1000_4/seg_2.m4v''"
  by (simp add: get_segment_uri_index_def get_segment_uri_def URI_FILE_ENDINGS_def clip_info_def
        int_str_def)

lemma uri3: "get_segment_uri_index clip_info ''https://cam/1000_4/file.mpd'' 2 =
    Some ''https://cam/1000_4/seg_3.m4v''"
  by (simp add: get_segment_uri_index_def get_segment_uri_def URI_FILE_ENDINGS_def clip_info_def
        int_str_def)

lemma uri0: "get_segment_uri ''https://cam/1000_4/file.mpd'' (init_string clip_info) =
    Some ''https://cam/1000_4/seg_init.mp4''"
  by (simp add: get_segment_uri_def URI_FILE_ENDINGS_def clip_info_def)

lemma count4: "segment_count 4 = Inr 2"
  using segment_count_exact [of 4] by simp

lemma no_log: "progress_log w st 0 = Inr ()" "progress_log w st 1 = Inr ()"
  "progress_log w st 2 = Inr ()"
  by (simp_all add: progress_log_def)












text \<open>The theorem of C4 on a loop of three segments whose second fetch fails in
  transport: the first fetch returned and the loop went on, the second ended it.\<close>

theorem fetch_failure_aborts_witness:
  "segment_loop (camera_service 200 [] ''https://cam/1000_4/seg_2.m4v'') (JStr ''tok'')
     clip_info ''https://cam/1000_4/file.mpd'' ''out.mp4'' 1000 [0, 1, 2] after_init =
   (Inl RequestException,
    \<lparr>calls = [MediaGet (JStr ''tok'') (Some ''https://cam/1000_4/seg_init.mp4''),
              MediaGet (JStr ''tok'') (Some ''https://cam/1000_4/seg_1.m4v''),
              MediaGet (JStr ''tok'') (Some ''https://cam/1000_4/seg_2.m4v'')],
     files = [''out.mp4'' \<mapsto> ''INITSEG''], log_lines = []\<rparr>)
   \<and> segment_fetch (camera_service 200 [] ''https://cam/1000_4/seg_2.m4v'') 1 (JStr ''tok'')
       clip_info ''https://cam/1000_4/file.mpd'' [0, 1, 2] 1 = Inl RequestException
   \<and> segment_fetch (camera_service 200 [] ''https://cam/1000_4/seg_2.m4v'') 1 (JStr ''tok'')
       clip_info ''https://cam/1000_4/file.mpd'' [0, 1, 2] 0 =
       Inr \<lparr>status_code = 200, content = ''SEG'', json = None\<rparr>
   \<and> [MediaGet (JStr ''tok'') (Some ''https://cam/1000_4/seg_init.mp4''),
       MediaGet (JStr ''tok'') (Some ''https://cam/1000_4/seg_1.m4v''),
       MediaGet (JStr ''tok'') (Some ''https://cam/1000_4/seg_2.m4v'')] =
      calls after_init @
      map (\<lambda>i. MediaGet (JStr ''tok'')
                 (get_segment_uri_index clip_info ''https://cam/1000_4/file.mpd'' i))
          (take (Suc 1) [0, 1, 2])
   \<and> [''out.mp4'' \<mapsto> ''INITSEG''] = (files after_init)(''out.mp4'' \<mapsto> ''INIT'' @
        concat (map (segment_body (camera_service 200 [] ''https://cam/1000_4/seg_2.m4v'') 1
                       (JStr ''tok'') clip_info ''https://cam/1000_4/file.mpd'' [0, 1, 2])
                  [0..<1]))
   \<and> progress_log (camera_service 200 [] ''https://cam/1000_4/seg_2.m4v'') 1000 ([0, 1, 2] ! 0)
       = Inr ()
   \<and> length (calls after_init) + Suc 0 <
       length (calls (snd (segment_loop (camera_service 200 [] ''https://cam/1000_4/seg_2.m4v'')
         (JStr ''tok'') clip_info ''https://cam/1000_4/file.mpd'' ''out.mp4'' 1000 [0, 1, 2]
         after_init)))"
proof -
  let ?w = "camera_service 200 [] ''https://cam/1000_4/seg_2.m4v''"
  let ?s' = "\<lparr>calls = [MediaGet (JStr ''tok'') (Some ''https://cam/1000_4/seg_init.mp4''),
              MediaGet (JStr ''tok'') (Some ''https://cam/1000_4/seg_1.m4v''),
              MediaGet (JStr ''tok'') (Some ''https://cam/1000_4/seg_2.m4v'')],
     files = [''out.mp4'' \<mapsto> ''INITSEG''], log_lines = []\<rparr>"
  have run: "segment_loop ?w (JStr ''tok'') clip_info ''https://cam/1000_4/file.mpd''
      ''out.mp4'' 1000 [0, 1, 2] after_init = (Inl RequestException, ?s')"
    by (simp add: after_init_def uri1 uri2 no_log media_fetch_def camera_service_def
        segment_loop_Cons del: segment_loop.simps)
  have fl: "files after_init ''out.mp4'' = Some ''INIT''"
    by (simp add: after_init_def)
  have made: "length (calls after_init) + 1 < length (calls ?s')"
    by (simp add: after_init_def)
  have f1: "segment_fetch ?w (length (calls after_init)) (JStr ''tok'') clip_info
       ''https://cam/1000_4/file.mpd'' [0, 1, 2] 1 = Inl RequestException"
    by (simp add: segment_fetch_def after_init_def uri2 media_fetch_def camera_service_def)
  have f0: "segment_fetch ?w 1 (JStr ''tok'') clip_info
       ''https://cam/1000_4/file.mpd'' [0, 1, 2] 0 =
       Inr \<lparr>status_code = 200, content = ''SEG'', json = None\<rparr>"
    by (simp add: segment_fetch_def uri1 media_fetch_def camera_service_def)
  from fetch_failure_aborts [OF run fl made] f1
  have "calls ?s' = calls after_init @
      map (\<lambda>i. MediaGet (JStr ''tok'')
                 (get_segment_uri_index clip_info ''https://cam/1000_4/file.mpd'' i))
          (take (Suc 1) [0, 1, 2])"
    and "files ?s' = (files after_init)(''out.mp4'' \<mapsto> ''INIT'' @
        concat (map (segment_body ?w (length (calls after_init))
                       (JStr ''tok'') clip_info ''https://cam/1000_4/file.mpd'' [0, 1, 2])
                  [0..<1]))"
    by blast+
  moreover have made0: "length (calls after_init) + 0 < length (calls ?s')"
    by (simp add: after_init_def)
  have f0': "segment_fetch ?w (length (calls after_init)) (JStr ''tok'') clip_info
       ''https://cam/1000_4/file.mpd'' [0, 1, 2] 0 =
       Inr \<lparr>status_code = 200, content = ''SEG'', json = None\<rparr>"
    using f0 by (simp add: after_init_def)
  have l0: "progress_log ?w 1000 ([0, 1, 2] ! 0) = Inr ()"
    by (simp add: no_log)
  from fetch_failure_aborts [OF run fl made0] f0' l0
  have "length (calls after_init) + Suc 0 < length (calls ?s')"
    by simp
  ultimately show ?thesis
    using run f1 f0 l0 by (simp add: after_init_def)
qed

text \<open>
  Claim C4 as stated fails for a response that is not a success: the first segment is
  answered with status 404, its body is appended to the file, and the next segment is
  fetched and written.
\<close>

theorem refused_segment_counterexample:
  "media_fetch (camera_service 200 ''https://cam/1000_4/seg_1.m4v'' []) 1 (JStr ''tok'')
     (get_segment_uri_index clip_info ''https://cam/1000_4/file.mpd'' 0) =
     Inr \<lparr>status_code = 404, content = ''Not Found'', json = None\<rparr>
   \<and> segment_loop (camera_service 200 ''https://cam/1000_4/seg_1.m4v'' []) (JStr ''tok'')
     clip_info ''https://cam/1000_4/file.mpd'' ''out.mp4'' 1000 [0, 1] after_init =
   (Inr (),
    \<lparr>calls = [MediaGet (JStr ''tok'') (Some ''https://cam/1000_4/seg_init.mp4''),
              MediaGet (JStr ''tok'') (Some ''https://cam/1000_4/seg_1.m4v''),
              MediaGet (JStr ''tok'') (Some ''https://cam/1000_4/seg_2.m4v'')],
     files = [''out.mp4'' \<mapsto> ''INITNot FoundSEG''], log_lines = []\<rparr>)"
  by (simp add: after_init_def uri1 uri2 no_log media_fetch_def camera_service_def
      segment_loop_Cons segment_loop_Nil del: segment_loop.simps)

text \<open>
  Claim C5 does not hold of the code. The media-URI request is answered with status 503
  and a body that holds the templates; the test after it reads the status of the session
  token response, which is 200, so \<^verbatim>\<open>execute_video\<close> goes on: it fetches the manifest
  and the segments and writes the output file.
\<close>

theorem media_uri_status_ignored:
  "api_post (camera_service 503 [] []) 1 (api_url @ ''/api/camera/getMediaUris'')
     (JObj [(''cameraUuid'', JStr ''cam-1'')]) =
     Inr \<lparr> status_code = 503, content = ''{...}'',
           json = Some (JObj [(''lanVodMpdUrisTemplates'',
                      JList [JStr ''https://cam/{START_TIME}_{DURATION}/file.mpd''])]) \<rparr>
   \<and> execute_video (camera_service 503 [] []) video_engine fresh =
   (Inr Returned_End,
    \<lparr>calls = [ApiPost (api_url @ ''/api/org/generateFederatedSessionToken'')
                (JObj [(''durationSec'', JInt 3600)]),
              ApiPost (api_url @ ''/api/camera/getMediaUris'')
                (JObj [(''cameraUuid'', JStr ''cam-1'')]),
              MediaGet (JStr ''tok'') (Some ''https://cam/1000_4/file.mpd''),
              MediaGet (JStr ''tok'') (Some ''https://cam/1000_4/seg_init.mp4''),
              MediaGet (JStr ''tok'') (Some ''https://cam/1000_4/seg_1.m4v''),
              MediaGet (JStr ''tok'') (Some ''https://cam/1000_4/seg_2.m4v'')],
     files = [''out.mp4'' \<mapsto> ''INITSEGSEG''], log_lines = []\<rparr>)"
proof -
  have fill: "fill_template (JStr ''https://cam/{START_TIME}_{DURATION}/file.mpd'') 1000 4 =
      Inr ''https://cam/1000_4/file.mpd''"
    by (simp add: int_str_def)
  show ?thesis
    by (simp add: execute_video_def video_engine_def then_do_def http_post_def http_get_def
        lift_def ret_def resp_json_def vod_template_def fill no_log fresh_def
        closing_log_def fromtimestamp_def time_min_def time_max_def
        write_stream_eq uri0 uri1 uri2 count4 py_range_def segment_loop_Cons
        segment_loop_Nil media_fetch_def camera_service_def api_url_def upt_conv_Cons
        del: segment_loop.simps fill_template.simps)
qed

section \<open>The workers and the multiplexer\<close>

text \<open>Which files a step touches, and which file a method leaves behind.\<close>

lemma touches_ret: "touches_only F (ret x)"
  by (simp add: touches_only_def ret_def)

lemma touches_lift: "touches_only F (lift r)"
  by (simp add: touches_only_def lift_def)

lemma touches_logger: "touches_only F (logger level msg)"
  by (auto simp: touches_only_def logger_def)

lemma touches_post: "touches_only F (http_post w url payload)"
  by (auto simp: touches_only_def http_post_def)

lemma touches_get: "touches_only F (http_get w token uri)"
  by (auto simp: touches_only_def http_get_def)

lemma touches_then_do:
  assumes "touches_only F m" and "\<And>x. touches_only F (g x)"
  shows "touches_only F (then_do m g)"
  unfolding touches_only_def
proof (intro allI impI)
  fix s y s' f
  assume run: "then_do m g s = (Inr y, s')" and f: "f \<notin> F"
  from then_do_Inr [OF run] obtain x s1 where "m s = (Inr x, s1)" "g x s1 = (Inr y, s')"
    by blast
  with assms f have "files s1 f = files s f" "files s' f = files s1 f"
    unfolding touches_only_def by blast+
  then show "files s' f = files s f" by simp
qed

lemma touches_if:
  "touches_only F a \<Longrightarrow> touches_only F b \<Longrightarrow> touches_only F (if c then a else b)"
  by simp

lemma touches_write_stream:
  "out \<in> F \<Longrightarrow> touches_only F (write_stream w token info mpd_uri out st d)"
  unfolding touches_only_def
proof (intro allI impI)
  fix s x s' f
  assume "out \<in> F" and run: "write_stream w token info mpd_uri out st d s = (Inr x, s')"
    and "f \<notin> F"
  then have "f \<noteq> out" by blast
  with write_stream_frame [OF run] show "files s' f = files s f" by blast
qed

lemma touches_execute_video: "touches_only {video self} (execute_video w self)"
  unfolding execute_video_def
  by (intro touches_then_do touches_if touches_post touches_get touches_lift touches_logger
        touches_ret touches_write_stream) simp

lemma touches_execute_audio:
  assumes "audio self = Some audio_file"
  shows "touches_only {audio_file} (execute_audio w self gw)"
  unfolding execute_audio_def assms option.case
  by (intro touches_then_do touches_if touches_post touches_get touches_lift touches_logger
        touches_ret touches_write_stream) simp

lemma leaves_then_do:
  assumes "\<And>x. leaves_file f (g x)"
  shows "leaves_file f (then_do m g)"
  using assms unfolding leaves_file_def by (blast dest: then_do_Inr)

lemma leaves_if:
  "leaves_file f a \<Longrightarrow> leaves_file f b \<Longrightarrow> leaves_file f (if c then a else b)"
  by simp

lemma leaves_early: "leaves_file f (ret Returned_Early)"
  by (simp add: leaves_file_def ret_def)

lemma leaves_write_stream:
  "leaves_file out (then_do (write_stream w token info mpd_uri out st d) (\<lambda>_.
     then_do (lift r) (\<lambda>_. ret Returned_End)))"
  unfolding leaves_file_def
proof (intro allI impI)
  fix s s'
  assume "then_do (write_stream w token info mpd_uri out st d) (\<lambda>_.
     then_do (lift r) (\<lambda>_. ret Returned_End)) s = (Inr Returned_End, s')"
  from then_do_Inr [OF this] obtain x s1 where
    ws: "write_stream w token info mpd_uri out st d s = (Inr x, s1)"
    and "then_do (lift r) (\<lambda>_. ret Returned_End) s1 = (Inr Returned_End, s')"
    by blast
  from then_do_Inr [OF this(2)] have "s' = s1"
    by (auto simp: ret_def lift_def)
  with write_stream_frame [OF ws] show "files s' out \<noteq> None" by blast
qed

lemma leaves_execute_video: "leaves_file (video self) (execute_video w self)"
  unfolding execute_video_def
  by (intro leaves_then_do leaves_if leaves_early leaves_write_stream)

lemma leaves_execute_audio:
  assumes "audio self = Some audio_file"
  shows "leaves_file audio_file (execute_audio w self gw)"
  unfolding execute_audio_def assms option.case
  by (intro leaves_then_do leaves_if leaves_early leaves_write_stream)

text \<open>After both streams have run to their ends, both files are on disk.\<close>

lemma both_files_written:
  assumes "video self \<noteq> audio_file" and "audio self = Some audio_file"
    and "execute_video w self s = (Inr Returned_End, s1)"
    and "execute_audio w self gw s1 = (Inr Returned_End, s2)"
  shows "files s2 (video self) \<noteq> None" and "files s2 audio_file \<noteq> None"
proof -
  from leaves_execute_video assms(3) have "files s1 (video self) \<noteq> None"
    unfolding leaves_file_def by blast
  moreover from touches_execute_audio [OF assms(2)] assms(1,4)
  have "files s2 (video self) = files s1 (video self)"
    unfolding touches_only_def by blast
  ultimately show "files s2 (video self) \<noteq> None" by simp
  from leaves_execute_audio [OF assms(2)] assms(4) show "files s2 audio_file \<noteq> None"
    unfolding leaves_file_def by blast
qed

text \<open>The \<^verbatim>\<open>try\<close> block on two files that exist.\<close>

lemma mux_and_remove_outcome:
  assumes "files s video_file \<noteq> None" and "files s audio_file \<noteq> None"
    and "video_file \<noteq> audio_file" and "output_file \<noteq> video_file"
    and "output_file \<noteq> audio_file"
  shows "\<exists>s'. mux_and_remove w video_file audio_file output_file level ffmpeg_msg other_msg s
                = (Inr (), s')
            \<and> after_mux w video_file audio_file output_file level ffmpeg_msg other_msg s s'"
proof -
  from assms(1,2) obtain video_bytes audio_bytes where
    v: "files s video_file = Some video_bytes" and a: "files s audio_file = Some audio_bytes"
    by blast
  show ?thesis
  proof (cases "ffmpeg_run w (Some video_bytes) (Some audio_bytes)")
    case (Muxed combined)
    with v a assms(3,4,5) show ?thesis
      by (simp add: mux_and_remove_def try_except_def then_do_def ffmpeg_concat_def
            os_remove_def after_mux_def)
  next
    case (MuxFailed e partial)
    with v a assms(3,4,5) show ?thesis
      by (cases partial)
         (simp_all add: mux_and_remove_def try_except_def then_do_def ffmpeg_concat_def
            os_remove_def after_mux_def logger_def)
  qed
qed

text \<open>
  Claim C8. Take a worker that is given an audio gateway, and let both streams complete:
  \<^verbatim>\<open>execute_video\<close> and then \<^verbatim>\<open>execute_audio\<close> run to their ends on the engine the
  worker builds. Then the worker returns, and in its final state: if the multiplexer
  succeeded, the video file and the audio file are deleted and the combined file holds
  the multiplexer's output; if it failed, one line is reported (the worker's message for
  \<^verbatim>\<open>ffmpeg.Error\<close> or for another exception) and both intermediate files are on disk
  with the contents the streams gave them. The first part is \<^verbatim>\<open>worker_manual\<close>, the
  second \<^verbatim>\<open>worker_alert\<close>.
\<close>

theorem mux_removes_or_keeps:
  assumes "audioGatewayUuid \<noteq> JNull"
  shows "(\<forall>s1 s2.
            execute_video w (CopyFootageToLocalStorage args_main camKey
               (stem @ ''_video'' @ ''.webm'') (Some (stem @ ''_audio'' @ ''.webm''))) s
              = (Inr Returned_End, s1)
          \<and> execute_audio w (CopyFootageToLocalStorage args_main camKey
               (stem @ ''_video'' @ ''.webm'') (Some (stem @ ''_audio'' @ ''.webm'')))
               audioGatewayUuid s1
              = (Inr Returned_End, s2)
          \<longrightarrow> (\<exists>s'. worker_manual w (Inr stem) camKey audioGatewayUuid args_main s = (Inr (), s')
                  \<and> after_mux w (stem @ ''_video'' @ ''.webm'') (stem @ ''_audio'' @ ''.webm'')
                      (stem @ ''_videoWithAudio.mp4'') PRINTED
                      ''Error in ffmpeg processing: '' ''Error: '' s2 s'))
       \<and> (\<forall>s1 s2.
            execute_video w (CopyFootageToLocalStorage
               (args_main\<lparr>args_start_time := start_time download_task,
                           args_duration := duration download_task\<rparr>)
               (device_uuid download_task)
               (stem @ ''_video'' @ ''.webm'') (Some (stem @ ''_audio'' @ ''.webm''))) s
              = (Inr Returned_End, s1)
          \<and> execute_audio w (CopyFootageToLocalStorage
               (args_main\<lparr>args_start_time := start_time download_task,
                           args_duration := duration download_task\<rparr>)
               (device_uuid download_task)
               (stem @ ''_video'' @ ''.webm'') (Some (stem @ ''_audio'' @ ''.webm'')))
               audioGatewayUuid s1
              = (Inr Returned_End, s2)
          \<longrightarrow> (\<exists>s'. worker_alert w (Inr stem) download_task audioGatewayUuid args_main s
                       = (Inr (), s')
                  \<and> after_mux w (stem @ ''_video'' @ ''.webm'') (stem @ ''_audio'' @ ''.webm'')
                      (stem @ ''_combined.mp4'') ERROR
                      ''Error in ffmpeg processing for alert %s: %s''
                      ''Error processing alert %s: %s'' s2 s'))"
proof (intro conjI allI impI)
  fix s1 s2
  let ?v = "stem @ ''_video'' @ ''.webm''" and ?a = "stem @ ''_audio'' @ ''.webm''"
  let ?e = "CopyFootageToLocalStorage args_main camKey ?v (Some ?a)"
  assume "execute_video w ?e s = (Inr Returned_End, s1)
        \<and> execute_audio w ?e audioGatewayUuid s1 = (Inr Returned_End, s2)"
  then have v: "execute_video w ?e s = (Inr Returned_End, s1)"
    and a: "execute_audio w ?e audioGatewayUuid s1 = (Inr Returned_End, s2)" by simp_all
  have ve: "video ?e = ?v" and ae: "audio ?e = Some ?a"
    by (simp_all add: CopyFootageToLocalStorage_def)
  have d: "video ?e \<noteq> ?a" by (simp add: CopyFootageToLocalStorage_def)
  from both_files_written [OF d ae v a] have ex: "files s2 ?v \<noteq> None" "files s2 ?a \<noteq> None"
    unfolding ve by blast+
  have run: "worker_manual w (Inr stem) camKey audioGatewayUuid args_main s =
      mux_and_remove w ?v ?a (stem @ ''_videoWithAudio.mp4'') PRINTED
         ''Error in ffmpeg processing: '' ''Error: '' s2"
    using assms v a by (simp add: worker_manual_def Let_def then_do_def lift_def)
  show "\<exists>s'. worker_manual w (Inr stem) camKey audioGatewayUuid args_main s = (Inr (), s')
          \<and> after_mux w ?v ?a (stem @ ''_videoWithAudio.mp4'') PRINTED
               ''Error in ffmpeg processing: '' ''Error: '' s2 s'"
    unfolding run by (rule mux_and_remove_outcome [OF ex]) simp_all
next
  fix s1 s2
  let ?v = "stem @ ''_video'' @ ''.webm''" and ?a = "stem @ ''_audio'' @ ''.webm''"
  let ?e = "CopyFootageToLocalStorage
               (args_main\<lparr>args_start_time := start_time download_task,
                           args_duration := duration download_task\<rparr>)
               (device_uuid download_task) ?v (Some ?a)"
  assume "execute_video w ?e s = (Inr Returned_End, s1)
        \<and> execute_audio w ?e audioGatewayUuid s1 = (Inr Returned_End, s2)"
  then have v: "execute_video w ?e s = (Inr Returned_End, s1)"
    and a: "execute_audio w ?e audioGatewayUuid s1 = (Inr Returned_End, s2)" by simp_all
  have ve: "video ?e = ?v" and ae: "audio ?e = Some ?a"
    by (simp_all add: CopyFootageToLocalStorage_def)
  have d: "video ?e \<noteq> ?a" by (simp add: CopyFootageToLocalStorage_def)
  from both_files_written [OF d ae v a] have ex: "files s2 ?v \<noteq> None" "files s2 ?a \<noteq> None"
    unfolding ve by blast+
  have run: "worker_alert w (Inr stem) download_task audioGatewayUuid args_main s =
      mux_and_remove w ?v ?a (stem @ ''_combined.mp4'') ERROR
         ''Error in ffmpeg processing for alert %s: %s''
         ''Error processing alert %s: %s'' s2"
    using assms v a by (simp add: worker_alert_def Let_def then_do_def lift_def)
  show "\<exists>s'. worker_alert w (Inr stem) download_task audioGatewayUuid args_main s = (Inr (), s')
          \<and> after_mux w ?v ?a (stem @ ''_combined.mp4'') ERROR
               ''Error in ffmpeg processing for alert %s: %s''
               ''Error processing alert %s: %s'' s2 s'"
    unfolding run by (rule mux_and_remove_outcome [OF ex]) simp_all
qed

text \<open>The facts that evaluate a download of the sample clip.\<close>

lemma fill4:
  "fill_template (JStr ''https://cam/{START_TIME}_{DURATION}/file.mpd'') 1000 4 =
      Inr ''https://cam/1000_4/file.mpd''"
  by (simp add: int_str_def)

lemmas run_simps = then_do_def http_post_def http_get_def lift_def ret_def resp_json_def
  vod_template_def fill4 no_log closing_log_def fromtimestamp_def time_min_def time_max_def
  write_stream_eq uri0 uri1 uri2 count4 py_range_def segment_loop_Cons segment_loop_Nil
  media_fetch_def api_url_def upt_conv_Cons CopyFootageToLocalStorage_def

text \<open>The theorem of C8 on two runs of the sample clip: a manual download whose
  multiplexer succeeds, so that only the combined file is left, and an alert download
  whose multiplexer fails, so that the error is logged and both intermediate files
  stay.\<close>

theorem mux_removes_or_keeps_witness:
  "fst (worker_manual joining_service (Inr ''Door_cam-1_1000'') (JStr ''cam-1'') (JStr ''gw-1'')
          manual_args fresh) = Inr ()
   \<and> files (snd (worker_manual joining_service (Inr ''Door_cam-1_1000'') (JStr ''cam-1'')
          (JStr ''gw-1'') manual_args fresh)) ''Door_cam-1_1000_video.webm'' = None
   \<and> files (snd (worker_manual joining_service (Inr ''Door_cam-1_1000'') (JStr ''cam-1'')
          (JStr ''gw-1'') manual_args fresh)) ''Door_cam-1_1000_audio.webm'' = None
   \<and> files (snd (worker_manual joining_service (Inr ''Door_cam-1_1000'') (JStr ''cam-1'')
          (JStr ''gw-1'') manual_args fresh)) ''Door_cam-1_1000_videoWithAudio.mp4''
       = Some ''INITSEGSEGINITSEGSEG''
   \<and> fst (worker_alert (camera_service 200 [] []) (Inr ''Door_cam-1_19700101_001640_alert_motion_a1'')
          door_task (JStr ''gw-1'') manual_args fresh) = Inr ()
   \<and> files (snd (worker_alert (camera_service 200 [] []) (Inr ''Door_cam-1_19700101_001640_alert_motion_a1'')
          door_task (JStr ''gw-1'') manual_args fresh))
        ''Door_cam-1_19700101_001640_alert_motion_a1_video.webm'' = Some ''INITSEGSEG''
   \<and> files (snd (worker_alert (camera_service 200 [] []) (Inr ''Door_cam-1_19700101_001640_alert_motion_a1'')
          door_task (JStr ''gw-1'') manual_args fresh))
        ''Door_cam-1_19700101_001640_alert_motion_a1_audio.webm'' = Some ''INITSEGSEG''
   \<and> log_lines (snd (worker_alert (camera_service 200 [] [])
          (Inr ''Door_cam-1_19700101_001640_alert_motion_a1'') door_task (JStr ''gw-1'') manual_args fresh))
       = [(ERROR, ''Error in ffmpeg processing for alert %s: %s'')]"
proof -
  let ?tok = "ApiPost (api_url @ ''/api/org/generateFederatedSessionToken'')
                (JObj [(''durationSec'', JInt 3600)])"
  let ?gets = "[MediaGet (JStr ''tok'') (Some ''https://cam/1000_4/file.mpd''),
                MediaGet (JStr ''tok'') (Some ''https://cam/1000_4/seg_init.mp4''),
                MediaGet (JStr ''tok'') (Some ''https://cam/1000_4/seg_1.m4v''),
                MediaGet (JStr ''tok'') (Some ''https://cam/1000_4/seg_2.m4v'')]"
  let ?c1 = "?tok # ApiPost (api_url @ ''/api/camera/getMediaUris'')
                (JObj [(''cameraUuid'', JStr ''cam-1'')]) # ?gets"
  let ?c2 = "?c1 @ ?tok # ApiPost (api_url @ ''/api/audiogateway/getMediaUris'')
                (JObj [(''gatewayUuid'', JStr ''gw-1'')]) # ?gets"
  let ?mv = "''Door_cam-1_1000'' @ ''_video'' @ ''.webm''"
  let ?ma = "''Door_cam-1_1000'' @ ''_audio'' @ ''.webm''"
  let ?me = "CopyFootageToLocalStorage manual_args (JStr ''cam-1'') ?mv (Some ?ma)"
  let ?m1 = "\<lparr>calls = ?c1, files = [?mv \<mapsto> ''INITSEGSEG''], log_lines = []\<rparr>"
  let ?m2 = "\<lparr>calls = ?c2, files = [?mv \<mapsto> ''INITSEGSEG'', ?ma \<mapsto> ''INITSEGSEG''],
             log_lines = []\<rparr>"
  have mv: "execute_video joining_service ?me fresh = (Inr Returned_End, ?m1)"
    by (simp add: execute_video_def run_simps manual_args_def joining_service_def
        camera_service_def fresh_def del: segment_loop.simps fill_template.simps)
  have ma: "execute_audio joining_service ?me (JStr ''gw-1'') ?m1 = (Inr Returned_End, ?m2)"
    by (simp add: execute_audio_def run_simps manual_args_def joining_service_def
        camera_service_def del: segment_loop.simps fill_template.simps)
  let ?av = "''Door_cam-1_19700101_001640_alert_motion_a1'' @ ''_video'' @ ''.webm''"
  let ?aa = "''Door_cam-1_19700101_001640_alert_motion_a1'' @ ''_audio'' @ ''.webm''"
  let ?ae = "CopyFootageToLocalStorage
               (manual_args\<lparr>args_start_time := start_time door_task,
                             args_duration := duration door_task\<rparr>)
               (device_uuid door_task) ?av (Some ?aa)"
  let ?a1 = "\<lparr>calls = ?c1, files = [?av \<mapsto> ''INITSEGSEG''], log_lines = []\<rparr>"
  let ?a2 = "\<lparr>calls = ?c2, files = [?av \<mapsto> ''INITSEGSEG'', ?aa \<mapsto> ''INITSEGSEG''],
             log_lines = []\<rparr>"
  have av: "execute_video (camera_service 200 [] []) ?ae fresh = (Inr Returned_End, ?a1)"
    by (simp add: execute_video_def run_simps manual_args_def door_task_def
        camera_service_def fresh_def del: segment_loop.simps fill_template.simps)
  have aa: "execute_audio (camera_service 200 [] []) ?ae (JStr ''gw-1'') ?a1
              = (Inr Returned_End, ?a2)"
    by (simp add: execute_audio_def run_simps manual_args_def door_task_def
        camera_service_def del: segment_loop.simps fill_template.simps)
  have gw: "JStr ''gw-1'' \<noteq> JNull" by simp
  from mux_removes_or_keeps [OF gw, of joining_service manual_args "JStr ''cam-1''"
      "''Door_cam-1_1000''" fresh] mv ma
  obtain s' where m: "worker_manual joining_service (Inr ''Door_cam-1_1000'') (JStr ''cam-1'')
          (JStr ''gw-1'') manual_args fresh = (Inr (), s')"
    "after_mux joining_service ?mv ?ma (''Door_cam-1_1000'' @ ''_videoWithAudio.mp4'') PRINTED
        ''Error in ffmpeg processing: '' ''Error: '' ?m2 s'"
    by blast
  from mux_removes_or_keeps [OF gw, of "camera_service 200 [] []" manual_args _ 
      "''Door_cam-1_19700101_001640_alert_motion_a1''" fresh door_task] av aa
  obtain t' where a: "worker_alert (camera_service 200 [] [])
          (Inr ''Door_cam-1_19700101_001640_alert_motion_a1'') door_task (JStr ''gw-1'') manual_args fresh
          = (Inr (), t')"
    "after_mux (camera_service 200 [] []) ?av ?aa
        (''Door_cam-1_19700101_001640_alert_motion_a1'' @ ''_combined.mp4'') ERROR
        ''Error in ffmpeg processing for alert %s: %s'' ''Error processing alert %s: %s'' ?a2 t'"
    by blast
  from m(2) have "files s' ''Door_cam-1_1000_video.webm'' = None"
    "files s' ''Door_cam-1_1000_audio.webm'' = None"
    "files s' ''Door_cam-1_1000_videoWithAudio.mp4'' = Some ''INITSEGSEGINITSEGSEG''"
    by (simp_all add: after_mux_def joining_service_def camera_service_def)
  moreover from a(2) have
    "files t' ''Door_cam-1_19700101_001640_alert_motion_a1_video.webm'' = Some ''INITSEGSEG''"
    "files t' ''Door_cam-1_19700101_001640_alert_motion_a1_audio.webm'' = Some ''INITSEGSEG''"
    "log_lines t' = [(ERROR, ''Error in ffmpeg processing for alert %s: %s'')]"
    by (simp_all add: after_mux_def camera_service_def)
  ultimately show ?thesis
    unfolding m(1) a(1) by simp
qed

end
